theory Spec2Isabelle
  imports Main "HOL-Library.AList" "HOL-Library.Sublist"
begin

section \<open>Values shared by all components\<close>

text \<open>
  A thrown JavaScript value is either an \<open>Error\<close> instance carrying a message or
  some other value. Every \<open>catch\<close> block of the agents turns it into text with
  \<open>error instanceof Error ? error.message : 'Unknown error'\<close>.
\<close>

datatype exn = Error string | Thrown

definition errorMessage :: "exn \<Rightarrow> string" where
  "errorMessage e = (case e of Error m \<Rightarrow> m | Thrown \<Rightarrow> ''Unknown error'')"

text \<open>
  JSON values: the parsed arguments of a tool call and the value a tool handler
  returns. Numbers are the integers the handlers produce (counts).
\<close>

datatype json =
    JNull
  | JBool bool
  | JNum int
  | JStr string
  | JArr "json list"
  | JObj "(string \<times> json) list"

text \<open>A JavaScript \<open>Date\<close>: its time value in milliseconds, \<open>None\<close> for an Invalid Date.\<close>

type_synonym Date = "int option"

subsection \<open>types/CalendarEvent.ts\<close>

record EmailAddress =
  name :: string
  address :: string

record Attendee =
  emailAddress :: EmailAddress

record DateTimeTimeZone =
  dateTime :: string
  timeZone :: string

text \<open>
  \<open>organizer\<close> is the \<open>emailAddress\<close> of the source's one-field object; \<open>event_id\<close>
  and \<open>end'\<close> are the source's \<open>id\<close> and \<open>end\<close>. The fields \<open>body\<close> and \<open>webLink\<close>
  are never read by the code and are left out.
\<close>

record GraphCalendarEvent =
  event_id :: string
  subject :: string
  bodyPreview :: string
  start :: DateTimeTimeZone
  end' :: DateTimeTimeZone
  organizer :: EmailAddress
  attendees :: "Attendee list"
  isAllDay :: bool
  isCancelled :: bool

subsection \<open>types/LLMTypes.ts\<close>

record LLMConfig =
  baseUrl :: string
  apiKey :: string
  model :: string

record MeetingAnalysis =
  summary :: string
  category :: string
  actionItems :: "string list"
  keyTopics :: "string list"

subsection \<open>types/AgentTypes.ts\<close>

text \<open>
  \<open>id'\<close>, \<open>function_name\<close> and \<open>function_arguments\<close> are the source's \<open>id\<close>,
  \<open>function.name\<close> and \<open>function.arguments\<close>.
\<close>

record ToolCall =
  id' :: string
  function_name :: string
  function_arguments :: string

datatype role = system | user | assistant | tool

record AgentMessage =
  role :: role
  content :: "string option"
  tool_calls :: "ToolCall list option"
  tool_call_id :: "string option"

text \<open>
  The tool specifications of an agent are advisory text sent to the model; the
  configuration keeps their names. \<open>model\<close> and \<open>temperature\<close> only enter the request body.
\<close>

record AgentConfig =
  agent_name :: string
  systemPrompt :: string
  tools :: "string list"
  maxIterations :: "nat option"

text \<open>
  The context bag \<open>{[key: string]: unknown}\<close>. A value is one of the things the agents
  store in it; an analysis-results \<open>Map\<close> is stored by reference (\<open>VMapRef\<close>), because the
  analysis agent, the shared context and the report agent all hold the same object.
\<close>

datatype ctx_value =
    VMeetings "GraphCalendarEvent list"
  | VDate Date
  | VMapRef nat
  | VString string

type_synonym AgentContext = "string \<rightharpoonup> ctx_value"

record Result =
  success :: bool
  message :: string
  error :: "string option"

record AgentResponse = Result +
  data :: "AgentContext option"

section \<open>JavaScript strings\<close>

text \<open>
  The string methods the source calls, on strings of ASCII characters.
  \<open>includes'\<close> is \<open>String.prototype.includes\<close>, \<open>split_on\<close> is \<open>split\<close> at one
  character, \<open>join\<close> is \<open>Array.prototype.join\<close>.
\<close>

definition toLowerCase :: "string \<Rightarrow> string" where
  "toLowerCase s =
     map (\<lambda>c. case map_of (zip ''ABCDEFGHIJKLMNOPQRSTUVWXYZ'' ''abcdefghijklmnopqrstuvwxyz'') c of
               None \<Rightarrow> c | Some l \<Rightarrow> l) s"

primrec includes' :: "string \<Rightarrow> string \<Rightarrow> bool" where
  "includes' [] sub = (sub = [])"
| "includes' (c # cs) sub = (prefix sub (c # cs) \<or> includes' cs sub)"

primrec split_on :: "char \<Rightarrow> string \<Rightarrow> string list" where
  "split_on c [] = [[]]"
| "split_on c (x # xs) =
     (if x = c then [] # split_on c xs
      else (case split_on c xs of [] \<Rightarrow> [[x]] | p # ps \<Rightarrow> (x # p) # ps))"

fun join :: "string \<Rightarrow> string list \<Rightarrow> string" where
  "join sep [] = []"
| "join sep [x] = x"
| "join sep (x # y # ys) = x @ sep @ join sep (y # ys)"

definition is_space :: "char \<Rightarrow> bool" where
  "is_space c = (c \<in> set [CHR 0x20, CHR 0x09, CHR 0x0A, CHR 0x0B, CHR 0x0C, CHR 0x0D])"

definition trim :: "string \<Rightarrow> string" where
  "trim s = rev (dropWhile is_space (rev (dropWhile is_space s)))"

fun show_nat :: "nat \<Rightarrow> string" where
  "show_nat n =
     (if n < 10 then [''0123456789'' ! n]
      else show_nat (n div 10) @ [''0123456789'' ! (n mod 10)])"

declare show_nat.simps [simp del]

definition show_bool :: "bool \<Rightarrow> string" where
  "show_bool b = (if b then ''true'' else ''false'')"

text \<open>\<open>args.key\<close> for parsed tool-call arguments: reading a property of \<open>null\<close> throws.\<close>

definition property :: "json \<Rightarrow> string \<Rightarrow> json option" where
  "property args key = (case args of JObj kvs \<Rightarrow> map_of kvs key | _ \<Rightarrow> None)"

definition null_property_error :: "string \<Rightarrow> exn" where
  "null_property_error key =
     Error (''Cannot read properties of null (reading '' @ [CHR 0x27] @ key @ [CHR 0x27] @ '')'')"

section \<open>The outside world\<close>

text \<open>
  Everything the agents reach through the network or the JavaScript runtime is a field
  of the environment.
  \<^item> The model endpoint behind \<open>callLLM\<close> answers the \<open>n\<close>-th request with
    \<open>llm_endpoint env n\<close>: a thrown error (a transport failure or a non-2xx status) or
    the \<open>content\<close> and \<open>tool_calls\<close> of the first choice.
  \<^item> The endpoint behind \<open>chatCompletion\<close> of the LLM service answers its \<open>n\<close>-th
    request with \<open>chat_endpoint env n\<close>.
  \<^item> \<open>parse_MeetingAnalysis\<close> is \<open>JSON.parse\<close> of a reply read at the type the source
    casts it to (\<open>as MeetingAnalysis\<close>, unchecked); \<open>Inl\<close> is the exception of
    \<open>JSON.parse\<close> or of reading \<open>category\<close> of the parsed value. The \<open>category\<close> of the
    result is the reply's, not yet validated.
  \<^item> \<open>acquireToken\<close> is the outcome of the \<open>n\<close>-th token acquisition of MSAL,
    \<open>graph_endpoint\<close> the outcome of the \<open>n\<close>-th paginated calendar fetch (all pages
    of one fetch are one answer).
  \<^item> \<open>XLSX_writeFile env filename sheets\<close> is the outcome of writing a workbook with the
    \<open>xlsx\<close> library, which \<open>generate_excel_report\<close> loads with a dynamic import: \<open>None\<close>
    when the file is written, the exception otherwise (the library refuses, for
    instance, a cell of more than 32767 characters).
  \<^item> \<open>Object_prototype env key\<close> is the property \<open>key\<close> that every plain object inherits
    from \<open>Object.prototype\<close> (\<open>constructor\<close>, \<open>toString\<close>, ...), converted to a string;
    \<open>None\<close> when \<open>Object.prototype\<close> has no such property.
  \<^item> The remaining fields are built-ins: \<open>new Date(string).getTime()\<close> (\<open>None\<close> for
    \<open>NaN\<close>), the formatting methods of a valid \<open>Date\<close>, \<open>setHours(23, 59, 59, 999)\<close>,
    \<open>parseInt\<close>, \<open>String(value)\<close> of a value that is not a string, the current
    time, and the floating-point total of \<open>get_meeting_stats\<close> (from the differences
    \<open>end - start\<close> in milliseconds, \<open>None\<close> for \<open>NaN\<close>).
\<close>

text \<open>
  A workbook written by \<open>XLSX.writeFile\<close>: its file name and its sheets, each a name
  and rows of cells.
\<close>

type_synonym sheet = "string \<times> string list list"

record Env =
  JSON_parse :: "string \<Rightarrow> exn + json"
  JSON_stringify :: "json \<Rightarrow> string"
  llm_endpoint :: "nat \<Rightarrow> exn + (string option \<times> ToolCall list option)"
  chat_endpoint :: "nat \<Rightarrow> exn + string"
  parse_MeetingAnalysis :: "string \<Rightarrow> exn + MeetingAnalysis"
  acquireToken :: "nat \<Rightarrow> exn + string"
  graph_endpoint :: "nat \<Rightarrow> exn + GraphCalendarEvent list"
  Date_parse :: "string \<Rightarrow> Date"
  Date_toISOString :: "int \<Rightarrow> string"
  Date_toDateString :: "int \<Rightarrow> string"
  Date_toLocaleTimeString :: "int \<Rightarrow> string"
  Date_setHours_end :: "int \<Rightarrow> int"
  parseInt :: "string \<Rightarrow> int option"
  js_toString :: "json \<Rightarrow> string"
  now :: int
  totalHours_of :: "int option list \<Rightarrow> json"
  XLSX_writeFile :: "string \<Rightarrow> sheet list \<Rightarrow> exn option"
  Object_prototype :: "string \<Rightarrow> string option"

text \<open>
  The part of the world the tool handlers act on: the module-level \<open>currentConfig\<close> of
  the LLM service, the number of requests sent to each collaborator, the \<open>Map\<close> objects
  allocated so far (by address, in insertion order of their keys), and the files
  written.
\<close>

record Outside =
  currentConfig :: LLMConfig
  chat_calls :: nat
  token_calls :: nat
  graph_calls :: nat
  heap :: "nat \<Rightarrow> (string \<times> MeetingAnalysis) list"
  next_ref :: nat
  files :: "(string \<times> sheet list) list"

text \<open>
  \<open>llm_calls\<close> counts the requests \<open>callLLM\<close> has sent; \<open>outside\<close> is the part of the
  world the tool handlers act on.
\<close>

record 'w World =
  llm_calls :: nat
  outside :: 'w

section \<open>agents/BaseAgent.ts\<close>

text \<open>
  A tool handler is a closure over its agent: it reads and writes the agent's context
  and the fields its subclass adds (\<open>'s\<close>), acts on the outside world, and returns a
  value or throws. No handler of the repository touches the conversation history or
  calls the model endpoint, and the type says so.
\<close>

type_synonym ('s, 'w) handler =
  "Env \<Rightarrow> json \<Rightarrow> AgentContext \<times> 's \<Rightarrow> 'w \<Rightarrow> (exn + json) \<times> (AgentContext \<times> 's) \<times> 'w"

record ('s, 'w) BaseAgent =
  config :: AgentConfig
  context' :: AgentContext
  conversationHistory :: "AgentMessage list"
  toolHandlers :: "string \<rightharpoonup> ('s, 'w) handler"
  members :: 's

definition system_message :: "AgentConfig \<Rightarrow> AgentMessage" where
  "system_message cfg =
     \<lparr>role = system, content = Some (systemPrompt cfg), tool_calls = None, tool_call_id = None\<rparr>"

definition new_BaseAgent :: "AgentConfig \<Rightarrow> 's \<Rightarrow> ('s, 'w) BaseAgent" where
  "new_BaseAgent cfg fs =
     \<lparr>config = cfg, context' = Map.empty, conversationHistory = [system_message cfg],
      toolHandlers = Map.empty, members = fs\<rparr>"

definition registerTool ::
  "string \<Rightarrow> ('s, 'w) handler \<Rightarrow> ('s, 'w) BaseAgent \<Rightarrow> ('s, 'w) BaseAgent" where
  "registerTool nm h a = a\<lparr>toolHandlers := (toolHandlers a)(nm \<mapsto> h)\<rparr>"

definition setContext :: "AgentContext \<Rightarrow> ('s, 'w) BaseAgent \<Rightarrow> ('s, 'w) BaseAgent" where
  "setContext c a = a\<lparr>context' := context' a ++ c\<rparr>"

definition push :: "AgentMessage \<Rightarrow> ('s, 'w) BaseAgent \<Rightarrow> ('s, 'w) BaseAgent" where
  "push m a = a\<lparr>conversationHistory := conversationHistory a @ [m]\<rparr>"

definition executeTool ::
  "Env \<Rightarrow> string \<Rightarrow> json \<Rightarrow> ('s, 'w) BaseAgent \<times> 'w World \<Rightarrow> (exn + json) \<times> ('s, 'w) BaseAgent \<times> 'w World" where
  "executeTool env nm args s =
     (case s of (a, w) \<Rightarrow>
        (case toolHandlers a nm of
           None \<Rightarrow> (Inl (Error (''Unknown tool: '' @ nm)), a, w)
         | Some h \<Rightarrow>
             (case h env args (context' a, members a) (outside w) of
                (r, (c, fs), out) \<Rightarrow> (r, a\<lparr>context' := c, members := fs\<rparr>, w\<lparr>outside := out\<rparr>))))"

definition callLLM ::
  "Env \<Rightarrow> ('s, 'w) BaseAgent \<times> 'w World \<Rightarrow> (exn + AgentMessage) \<times> ('s, 'w) BaseAgent \<times> 'w World" where
  "callLLM env s =
     (case s of (a, w) \<Rightarrow>
        (case llm_endpoint env (llm_calls w) of
           Inl e \<Rightarrow> (Inl e, a, w\<lparr>llm_calls := Suc (llm_calls w)\<rparr>)
         | Inr (c, tcs) \<Rightarrow>
             (Inr \<lparr>role = assistant, content = c, tool_calls = tcs, tool_call_id = None\<rparr>,
              a, w\<lparr>llm_calls := Suc (llm_calls w)\<rparr>)))"

text \<open>
  The body of the inner \<open>try\<close> of \<open>run\<close> up to the handler's result: \<open>JSON.parse\<close> of
  the arguments, then \<open>executeTool\<close>. An exception of either leaves the block.
\<close>

definition toolCall_try ::
  "Env \<Rightarrow> ToolCall \<Rightarrow> ('s, 'w) BaseAgent \<times> 'w World \<Rightarrow> (exn + json) \<times> ('s, 'w) BaseAgent \<times> 'w World" where
  "toolCall_try env toolCall s =
     (case JSON_parse env (function_arguments toolCall) of
        Inl e \<Rightarrow> (Inl e, s)
      | Inr args \<Rightarrow> executeTool env (function_name toolCall) args s)"

definition tool_result_message :: "Env \<Rightarrow> ToolCall \<Rightarrow> json \<Rightarrow> AgentMessage" where
  "tool_result_message env toolCall result =
     \<lparr>role = tool, content = Some (JSON_stringify env result), tool_calls = None,
      tool_call_id = Some (id' toolCall)\<rparr>"

definition tool_error_message :: "Env \<Rightarrow> ToolCall \<Rightarrow> exn \<Rightarrow> AgentMessage" where
  "tool_error_message env toolCall e =
     \<lparr>role = tool,
      content = Some (JSON_stringify env (JObj [(''error'', JStr (errorMessage e))])),
      tool_calls = None, tool_call_id = Some (id' toolCall)\<rparr>"

text \<open>One pass of the \<open>for\<close> loop over the tool calls: the inner \<open>try\<close> and its \<open>catch\<close>.\<close>

definition process_toolCall ::
  "Env \<Rightarrow> ToolCall \<Rightarrow> ('s, 'w) BaseAgent \<times> 'w World \<Rightarrow> ('s, 'w) BaseAgent \<times> 'w World" where
  "process_toolCall env toolCall s =
     (case toolCall_try env toolCall s of
        (Inr result, a, w) \<Rightarrow> (push (tool_result_message env toolCall result) a, w)
      | (Inl e, a, w) \<Rightarrow> (push (tool_error_message env toolCall e) a, w))"

primrec process_toolCalls ::
  "Env \<Rightarrow> ToolCall list \<Rightarrow> ('s, 'w) BaseAgent \<times> 'w World \<Rightarrow> ('s, 'w) BaseAgent \<times> 'w World" where
  "process_toolCalls env [] s = s"
| "process_toolCalls env (toolCall # rest) s = process_toolCalls env rest (process_toolCall env toolCall s)"

text \<open>
  \<open>assistantMessage.tool_calls && assistantMessage.tool_calls.length > 0\<close>: the calls
  to process, empty when the field is missing or an empty array.
\<close>

definition requested_calls :: "AgentMessage \<Rightarrow> ToolCall list" where
  "requested_calls m = (case tool_calls m of None \<Rightarrow> [] | Some tcs \<Rightarrow> tcs)"

definition completed :: "AgentMessage \<Rightarrow> AgentContext \<Rightarrow> AgentResponse" where
  "completed m c =
     \<lparr>success = True,
      message = (case content m of None \<Rightarrow> ''Task completed''
                 | Some t \<Rightarrow> if t = [] then ''Task completed'' else t),
      error = None, data = Some c\<rparr>"

definition agent_failed :: "exn \<Rightarrow> AgentResponse" where
  "agent_failed e =
     \<lparr>success = False, message = ''Agent failed'', error = Some (errorMessage e), data = None\<rparr>"

definition max_iterations_reached :: AgentResponse where
  "max_iterations_reached =
     \<lparr>success = False, message = ''Agent reached maximum iterations'',
      error = Some ''Max iterations exceeded'', data = None\<rparr>"

text \<open>
  The body of the outer \<open>try\<close>, one iteration of the \<open>while\<close> loop. \<open>Inr None\<close> is
  \<open>continue\<close>, \<open>Inr (Some r)\<close> is \<open>return r\<close>, \<open>Inl e\<close> is the exception \<open>callLLM\<close> threw.
\<close>

definition iteration_try ::
  "Env \<Rightarrow> ('s, 'w) BaseAgent \<times> 'w World \<Rightarrow>
   (exn + AgentResponse option) \<times> ('s, 'w) BaseAgent \<times> 'w World" where
  "iteration_try env s =
     (case callLLM env s of
        (Inl e, s') \<Rightarrow> (Inl e, s')
      | (Inr assistantMessage, a, w) \<Rightarrow>
          (if requested_calls assistantMessage \<noteq> []
           then (Inr None, process_toolCalls env (requested_calls assistantMessage) (push assistantMessage a, w))
           else (Inr (Some (completed assistantMessage (context' a))), push assistantMessage a, w)))"

text \<open>
  The \<open>while (iterations < maxIterations)\<close> loop with the outer \<open>catch\<close> and the code
  after the loop. The result is a sum because \<open>run\<close> is an \<open>async\<close> function whose
  promise could reject.
\<close>

function run_loop ::
  "Env \<Rightarrow> nat \<Rightarrow> nat \<Rightarrow> ('s, 'w) BaseAgent \<times> 'w World \<Rightarrow>
   (exn + AgentResponse) \<times> ('s, 'w) BaseAgent \<times> 'w World" where
  "run_loop env maxIt iterations s =
     (if iterations < maxIt
      then (case iteration_try env s of
              (Inl e, s') \<Rightarrow> (Inr (agent_failed e), s')
            | (Inr (Some r), s') \<Rightarrow> (Inr r, s')
            | (Inr None, s') \<Rightarrow> run_loop env maxIt (Suc iterations) s')
      else (Inr max_iterations_reached, s))"
  by pat_completeness auto
termination
  by (relation "measure (\<lambda>(env, maxIt, iterations, s). maxIt - iterations)") auto

declare run_loop.simps [simp del]

definition user_message :: "string \<Rightarrow> AgentMessage" where
  "user_message userMessage =
     \<lparr>role = user, content = Some userMessage, tool_calls = None, tool_call_id = None\<rparr>"

definition run ::
  "Env \<Rightarrow> string \<Rightarrow> ('s, 'w) BaseAgent \<times> 'w World \<Rightarrow>
   (exn + AgentResponse) \<times> ('s, 'w) BaseAgent \<times> 'w World" where
  "run env userMessage s =
     (case s of (a, w) \<Rightarrow>
        run_loop env (case maxIterations (config a) of None \<Rightarrow> 10 | Some n \<Rightarrow> n) 0
          (push (user_message userMessage) a, w))"

definition reset :: "('s, 'w) BaseAgent \<Rightarrow> ('s, 'w) BaseAgent" where
  "reset a = a\<lparr>conversationHistory := [system_message (config a)], context' := Map.empty\<rparr>"

section \<open>utils/domainExtractor.ts\<close>

definition extractDomainFromEmail :: "string \<Rightarrow> string" where
  "extractDomainFromEmail email =
     (if email = [] \<or> \<not> includes' email ''@'' then []
      else (case split_on CHR ''@'' email of
              p # d # ps \<Rightarrow> toLowerCase d
            | _ \<Rightarrow> []))"

text \<open>Both branches of the source return the domain itself.\<close>

definition personalProviders :: "string list" where
  "personalProviders =
     [''gmail.com'', ''yahoo.com'', ''hotmail.com'', ''outlook.com'', ''live.com'',
      ''icloud.com'', ''aol.com'', ''protonmail.com'', ''mail.com'']"

definition extractCompanyFromEmail :: "string \<Rightarrow> string" where
  "extractCompanyFromEmail email =
     (let domain = extractDomainFromEmail email in
      if domain = [] then []
      else if domain \<in> set personalProviders then domain
      else domain)"

text \<open>\<open>[...new Set(companies)]\<close> keeps the first occurrence of each company, in order.\<close>

definition getUniqueCompanies :: "string list \<Rightarrow> string list" where
  "getUniqueCompanies emails =
     rev (remdups (rev (filter (\<lambda>company. company \<noteq> []) (map extractCompanyFromEmail emails))))"

section \<open>services/excelService.ts\<close>

record MeetingReportRow =
  meetingName :: string
  date :: string
  startTime :: string
  endTime :: string
  organizerName :: string
  organizerEmail :: string
  organizerCompany :: string
  attendeeNames :: string
  attendeeEmails :: string
  attendeeCompanies :: string
  agenda :: string

text \<open>\<open>date.toISOString()\<close> throws a \<open>RangeError\<close> on an Invalid Date.\<close>

definition toISOString :: "Env \<Rightarrow> Date \<Rightarrow> exn + string" where
  "toISOString env d =
     (case d of None \<Rightarrow> Inl (Error ''Invalid time value'')
      | Some t \<Rightarrow> Inr (Date_toISOString env t))"

definition date_part :: "string \<Rightarrow> string" where
  "date_part isoStr = (case split_on CHR ''T'' isoStr of [] \<Rightarrow> [] | p # ps \<Rightarrow> p)"

definition formatDate :: "Env \<Rightarrow> string \<Rightarrow> exn + string" where
  "formatDate env isoString =
     (case toISOString env (Date_parse env isoString) of
        Inl e \<Rightarrow> Inl e
      | Inr isoStr \<Rightarrow> Inr (date_part isoStr))"

definition formatTime :: "Env \<Rightarrow> string \<Rightarrow> string" where
  "formatTime env isoString =
     (case Date_parse env isoString of
        None \<Rightarrow> ''Invalid Date''
      | Some t \<Rightarrow> Date_toLocaleTimeString env t)"

text \<open>\<open>startTime === endTime\<close> on the two \<open>getTime()\<close> values: \<open>NaN\<close> equals nothing.\<close>

definition hasZeroDuration :: "Env \<Rightarrow> GraphCalendarEvent \<Rightarrow> bool" where
  "hasZeroDuration env event =
     (case (Date_parse env (dateTime (start event)), Date_parse env (dateTime (end' event))) of
        (Some t1, Some t2) \<Rightarrow> t1 = t2
      | _ \<Rightarrow> False)"

text \<open>The callback of the final \<open>map\<close>: the row of one event, or the exception of \<open>formatDate\<close>.\<close>

definition report_row :: "Env \<Rightarrow> GraphCalendarEvent \<Rightarrow> exn + MeetingReportRow" where
  "report_row env event =
     (let names = join '', '' (filter (\<lambda>n. n \<noteq> []) (map (\<lambda>a. name (emailAddress a)) (attendees event)));
          emails = filter (\<lambda>email. email \<noteq> []) (map (\<lambda>a. address (emailAddress a)) (attendees event));
          companies = join '', '' (getUniqueCompanies emails)
      in case formatDate env (dateTime (start event)) of
           Inl e \<Rightarrow> Inl e
         | Inr d \<Rightarrow>
             Inr \<lparr>meetingName = (if subject event = [] then ''(No subject)'' else subject event),
                  date = d,
                  startTime = formatTime env (dateTime (start event)),
                  endTime = formatTime env (dateTime (end' event)),
                  organizerName = name (organizer event),
                  organizerEmail = address (organizer event),
                  organizerCompany = extractCompanyFromEmail (address (organizer event)),
                  attendeeNames = names,
                  attendeeEmails = join '', '' emails,
                  attendeeCompanies = companies,
                  agenda = take 500 (bodyPreview event)\<rparr>)"

text \<open>\<open>Array.prototype.map\<close> with a callback that may throw: the first exception leaves the call.\<close>

primrec map_throwing :: "('a \<Rightarrow> exn + 'b) \<Rightarrow> 'a list \<Rightarrow> exn + 'b list" where
  "map_throwing f [] = Inr []"
| "map_throwing f (x # xs) =
     (case f x of
        Inl e \<Rightarrow> Inl e
      | Inr y \<Rightarrow> (case map_throwing f xs of Inl e \<Rightarrow> Inl e | Inr ys \<Rightarrow> Inr (y # ys)))"

definition transformEventsToReportRows :: "Env \<Rightarrow> GraphCalendarEvent list \<Rightarrow> exn + MeetingReportRow list" where
  "transformEventsToReportRows env events =
     map_throwing (report_row env)
       (filter (\<lambda>event. \<not> hasZeroDuration env event)
          (filter (\<lambda>event. \<not> isCancelled event) events))"

definition formatDateStr :: "Env \<Rightarrow> Date \<Rightarrow> exn + string" where
  "formatDateStr env d =
     (case toISOString env d of
        Inl e \<Rightarrow> Inl e
      | Inr isoStr \<Rightarrow> Inr (filter (\<lambda>c. c \<noteq> CHR ''-'') (date_part isoStr)))"

definition generateFilename :: "Env \<Rightarrow> Date \<Rightarrow> Date \<Rightarrow> exn + string" where
  "generateFilename env startDate endDate =
     (case formatDateStr env startDate of
        Inl e \<Rightarrow> Inl e
      | Inr s \<Rightarrow>
          (case formatDateStr env endDate of
             Inl e \<Rightarrow> Inl e
           | Inr e \<Rightarrow> Inr (''meeting-report_'' @ s @ ''_to_'' @ e @ ''.xlsx'')))"

section \<open>services/llmService.ts\<close>

definition isLLMConfigured :: "Outside \<Rightarrow> bool" where
  "isLLMConfigured w = (length (baseUrl (currentConfig w)) > 0 \<and> length (model (currentConfig w)) > 0)"

text \<open>
  \<open>chatCompletion\<close>: the request is sent only when the service is configured; its
  answer is the reply's text or the exception of a failed request.
\<close>

definition chatCompletion :: "Env \<Rightarrow> Outside \<Rightarrow> (exn + string) \<times> Outside" where
  "chatCompletion env w =
     (if \<not> isLLMConfigured w
      then (Inl (Error ''LLM not configured. Please configure in settings.''), w)
      else (chat_endpoint env (chat_calls w), w\<lparr>chat_calls := Suc (chat_calls w)\<rparr>))"

definition validCategories :: "string list" where
  "validCategories =
     [''internal-team'', ''external-client'', ''one-on-one'', ''all-hands'', ''interview'',
      ''training'', ''review'', ''planning'', ''social'', ''other'']"

text \<open>The fenced-code stripping of the reply before \<open>JSON.parse\<close>.\<close>

definition strip_fences :: "string \<Rightarrow> string" where
  "strip_fences response =
     (let jsonStr = trim response;
          jsonStr = (if prefix ''```json'' jsonStr then drop 7 jsonStr else jsonStr);
          jsonStr = (if prefix ''```'' jsonStr then drop 3 jsonStr else jsonStr);
          jsonStr = (if suffix ''```'' jsonStr then take (length jsonStr - 3) jsonStr else jsonStr)
      in trim jsonStr)"

text \<open>The body of the \<open>try\<close> of \<open>analyzeMeeting\<close>.\<close>

definition analyzeMeeting_try :: "Env \<Rightarrow> Outside \<Rightarrow> (exn + MeetingAnalysis) \<times> Outside" where
  "analyzeMeeting_try env w =
     (case chatCompletion env w of
        (Inl e, w') \<Rightarrow> (Inl e, w')
      | (Inr response, w') \<Rightarrow>
          (case parse_MeetingAnalysis env (strip_fences response) of
             Inl e \<Rightarrow> (Inl e, w')
           | Inr analysis \<Rightarrow>
               (Inr (if category analysis \<notin> set validCategories
                     then analysis\<lparr>category := ''other''\<rparr> else analysis), w')))"

definition default_analysis :: "GraphCalendarEvent \<Rightarrow> MeetingAnalysis" where
  "default_analysis event =
     \<lparr>summary = (if take 100 (bodyPreview event) = [] then ''No description available''
                 else take 100 (bodyPreview event)),
      category = ''other'', actionItems = [], keyTopics = []\<rparr>"

definition analyzeMeeting :: "Env \<Rightarrow> GraphCalendarEvent \<Rightarrow> Outside \<Rightarrow> (exn + MeetingAnalysis) \<times> Outside" where
  "analyzeMeeting env event w =
     (case analyzeMeeting_try env w of
        (Inr analysis, w') \<Rightarrow> (Inr analysis, w')
      | (Inl e, w') \<Rightarrow> (Inr (default_analysis event), w'))"

text \<open>
  \<open>generateExecutiveSummary\<close> builds a prompt from the meetings and analyses and
  returns what \<open>chatCompletion\<close> returns; the endpoint's answer does not depend on the
  prompt here.
\<close>

definition generateExecutiveSummary ::
  "Env \<Rightarrow> GraphCalendarEvent list \<Rightarrow> (string \<times> MeetingAnalysis) list \<Rightarrow> Outside \<Rightarrow> (exn + string) \<times> Outside" where
  "generateExecutiveSummary env events analyses w = chatCompletion env w"

section \<open>services/graphService.ts\<close>

text \<open>An MSAL instance: the user names of the accounts \<open>getAllAccounts()\<close> returns.\<close>

record MsalInstance =
  accounts :: "string list"

definition getAccessToken :: "Env \<Rightarrow> MsalInstance \<Rightarrow> Outside \<Rightarrow> (exn + string) \<times> Outside" where
  "getAccessToken env msal w =
     (if length (accounts msal) = 0
      then (Inl (Error ''No authenticated account found. Please sign in first.''), w)
      else (acquireToken env (token_calls w), w\<lparr>token_calls := Suc (token_calls w)\<rparr>))"

definition fetchCalendarEvents ::
  "Env \<Rightarrow> MsalInstance \<Rightarrow> Date \<Rightarrow> Date \<Rightarrow> Outside \<Rightarrow> (exn + GraphCalendarEvent list) \<times> Outside" where
  "fetchCalendarEvents env msal startDate endDate w =
     (case getAccessToken env msal w of
        (Inl e, w') \<Rightarrow> (Inl e, w')
      | (Inr accessToken, w') \<Rightarrow>
          (case toISOString env startDate of
             Inl e \<Rightarrow> (Inl e, w')
           | Inr startDateTime \<Rightarrow>
               (case toISOString env endDate of
                  Inl e \<Rightarrow> (Inl e, w')
                | Inr endDateTime \<Rightarrow>
                    (graph_endpoint env (graph_calls w'), w'\<lparr>graph_calls := Suc (graph_calls w')\<rparr>))))"

section \<open>Helpers of the tool handlers\<close>

text \<open>
  \<open>new Date(value)\<close> for an argument read from the parsed JSON: a missing argument
  gives an Invalid Date, a number is a time value (valid up to 8.64e15 ms), \<open>null\<close> and
  booleans are converted to numbers, everything else is parsed as a string.
\<close>

definition new_Date :: "Env \<Rightarrow> json option \<Rightarrow> Date" where
  "new_Date env v =
     (case v of
        None \<Rightarrow> None
      | Some (JStr s) \<Rightarrow> Date_parse env s
      | Some (JNum n) \<Rightarrow> (if \<bar>n\<bar> \<le> 8640000000000000 then Some n else None)
      | Some JNull \<Rightarrow> Some 0
      | Some (JBool b) \<Rightarrow> Some (if b then 1 else 0)
      | Some j \<Rightarrow> Date_parse env (js_toString env j))"

text \<open>\<open>String(value)\<close>, as a template literal and \<open>parseInt\<close> convert their argument.\<close>

definition String_of :: "Env \<Rightarrow> json option \<Rightarrow> string" where
  "String_of env v =
     (case v of None \<Rightarrow> ''undefined'' | Some (JStr s) \<Rightarrow> s | Some j \<Rightarrow> js_toString env j)"

text \<open>The truthiness of a JSON value or \<open>undefined\<close>.\<close>

definition truthy :: "json option \<Rightarrow> bool" where
  "truthy v =
     (case v of
        None \<Rightarrow> False
      | Some JNull \<Rightarrow> False
      | Some (JBool b) \<Rightarrow> b
      | Some (JNum n) \<Rightarrow> n \<noteq> 0
      | Some (JStr s) \<Rightarrow> s \<noteq> []
      | Some j \<Rightarrow> True)"

text \<open>\<open>value.toLowerCase()\<close> throws a \<open>TypeError\<close> unless the value is a string.\<close>

definition toLowerCase_of :: "json option \<Rightarrow> exn + string" where
  "toLowerCase_of v =
     (case v of
        Some (JStr s) \<Rightarrow> Inr (toLowerCase s)
      | None \<Rightarrow> Inl (Error (''Cannot read properties of undefined (reading '' @ [CHR 0x27] @ ''toLowerCase'' @ [CHR 0x27] @ '')''))
      | Some JNull \<Rightarrow> Inl (null_property_error ''toLowerCase'')
      | Some j \<Rightarrow> Inl (Error ''filterValue.toLowerCase is not a function''))"

text \<open>
  A plain object used as a dictionary (\<open>const counts: Record<string, number> = {}\<close>)
  is the list of its own properties in the order of their creation. Reading a key that
  is not an own property finds the property inherited from \<open>Object.prototype\<close>, if
  there is one; \<open>__proto__\<close> is inherited as an accessor, whose value is
  \<open>Object.prototype\<close> itself and whose setter ignores a value that is not an object, so
  an assignment of a number, a string or an array to it creates no property.
\<close>

definition inherited :: "Env \<Rightarrow> string \<Rightarrow> bool" where
  "inherited env key = (key = ''__proto__'' \<or> Object_prototype env key \<noteq> None)"

text \<open>
  \<open>Object.keys\<close> and \<open>JSON.stringify\<close> list the own properties whose keys are array
  indices (canonical decimal numerals below \<open>2^32 - 1\<close>) first, in ascending numeric
  order, then the other keys in the order of their creation.
\<close>

definition digit_value :: "char \<Rightarrow> int option" where
  "digit_value c =
     map_of [(CHR ''0'', 0), (CHR ''1'', 1), (CHR ''2'', 2), (CHR ''3'', 3), (CHR ''4'', 4),
             (CHR ''5'', 5), (CHR ''6'', 6), (CHR ''7'', 7), (CHR ''8'', 8), (CHR ''9'', 9)] c"

definition numeral_value :: "string \<Rightarrow> int" where
  "numeral_value key = foldl (\<lambda>n c. 10 * n + (case digit_value c of None \<Rightarrow> 0 | Some d \<Rightarrow> d)) 0 key"

definition array_index :: "string \<Rightarrow> bool" where
  "array_index key =
     (key \<noteq> [] \<and> list_all (\<lambda>c. digit_value c \<noteq> None) key \<and> (key = ''0'' \<or> hd key \<noteq> CHR ''0'')
      \<and> numeral_value key < 4294967295)"

definition own_properties :: "(string \<times> 'a) list \<Rightarrow> (string \<times> 'a) list" where
  "own_properties obj =
     sort_key (\<lambda>(key, v). numeral_value key) (filter (\<lambda>(key, v). array_index key) obj)
     @ filter (\<lambda>(key, v). \<not> array_index key) obj"

text \<open>
  Counting by key, \<open>counts[k] = (counts[k] || 0) + 1\<close>. The value read is the own
  property, else the inherited one, else \<open>undefined\<close>; adding \<open>1\<close> to a number
  increments it, adding \<open>1\<close> to anything else (an inherited function, a string made
  this way before) appends the character \<open>1\<close> to its text.
\<close>

datatype tally = Count nat | Text string

definition count_key :: "Env \<Rightarrow> (string \<times> tally) list \<Rightarrow> string \<Rightarrow> (string \<times> tally) list" where
  "count_key env counts key =
     (if key = ''__proto__'' then counts
      else AList.update key
             (case map_of counts key of
                Some (Count n) \<Rightarrow> Count (Suc n)
              | Some (Text t) \<Rightarrow> Text (t @ ''1'')
              | None \<Rightarrow> (case Object_prototype env key of None \<Rightarrow> Count 1 | Some t \<Rightarrow> Text (t @ ''1'')))
             counts)"

definition count_keys :: "Env \<Rightarrow> string list \<Rightarrow> (string \<times> tally) list" where
  "count_keys env ks = foldl (count_key env) [] ks"

definition counts_json :: "(string \<times> tally) list \<Rightarrow> json" where
  "counts_json counts =
     JObj (map (\<lambda>(key, v). (key, case v of Count n \<Rightarrow> JNum (int n) | Text t \<Rightarrow> JStr t)) (own_properties counts))"

definition strings_json :: "string list \<Rightarrow> json" where
  "strings_json xs = JArr (map JStr xs)"

definition analysis_json :: "MeetingAnalysis \<Rightarrow> json" where
  "analysis_json a =
     JObj [(''summary'', JStr (summary a)), (''category'', JStr (category a)),
           (''actionItems'', strings_json (actionItems a)), (''keyTopics'', strings_json (keyTopics a))]"

definition row_json :: "MeetingReportRow \<Rightarrow> json" where
  "row_json r =
     JObj [(''meetingName'', JStr (meetingName r)), (''date'', JStr (date r)),
           (''startTime'', JStr (startTime r)), (''endTime'', JStr (endTime r)),
           (''organizerName'', JStr (organizerName r)), (''organizerEmail'', JStr (organizerEmail r)),
           (''organizerCompany'', JStr (organizerCompany r)), (''attendees'', JStr (attendeeNames r)),
           (''attendeeEmails'', JStr (attendeeEmails r)), (''attendeeCompanies'', JStr (attendeeCompanies r)),
           (''agenda'', JStr (agenda r))]"

text \<open>\<open>(this.context.meetings as GraphCalendarEvent[]) || []\<close>\<close>

definition context_meetings :: "AgentContext \<Rightarrow> GraphCalendarEvent list" where
  "context_meetings c = (case c ''meetings'' of Some (VMeetings ms) \<Rightarrow> ms | _ \<Rightarrow> [])"

text \<open>\<open>address.split('@')[1]\<close>, \<open>undefined\<close> when the address has no \<open>@\<close>.\<close>

definition domain_of :: "string \<Rightarrow> string option" where
  "domain_of addr = (case split_on CHR ''@'' addr of p # d # ps \<Rightarrow> Some d | _ \<Rightarrow> None)"

section \<open>agents/CalendarAgent.ts\<close>

record CalendarFields =
  msalInstance :: "MsalInstance option"
  meetings :: "GraphCalendarEvent list"
  userDomain :: string

type_synonym CalendarAgent = "(CalendarFields, Outside) BaseAgent"

text \<open>
  The system prompts are fixed texts sent to the model; each is kept by its first line.
\<close>

definition CalendarAgent_config :: AgentConfig where
  "CalendarAgent_config =
     \<lparr>agent_name = ''CalendarAgent'',
      systemPrompt = ''You are a Calendar Agent specialized in fetching and processing Microsoft Outlook calendar data.'',
      tools = [''fetch_calendar_events'', ''filter_meetings'', ''get_meeting_stats''],
      maxIterations = Some 5\<rparr>"

definition fetch_calendar_events :: "(CalendarFields, Outside) handler" where
  "fetch_calendar_events env args self w =
     (case self of (c, f) \<Rightarrow>
        (case msalInstance f of
           None \<Rightarrow> (Inl (Error ''Not authenticated. Please sign in first.''), self, w)
         | Some msal \<Rightarrow>
             (if args = JNull then (Inl (null_property_error ''start_date''), self, w)
              else
                (let startDate = new_Date env (property args ''start_date'');
                     endDate = map_option (Date_setHours_end env) (new_Date env (property args ''end_date''))
                 in case fetchCalendarEvents env msal startDate endDate w of
                      (Inl e, w') \<Rightarrow> (Inl e, self, w')
                    | (Inr fetched, w') \<Rightarrow>
                        (let self' = (c(''meetings'' \<mapsto> VMeetings fetched, ''startDate'' \<mapsto> VDate startDate,
                                        ''endDate'' \<mapsto> VDate endDate),
                                      f\<lparr>meetings := fetched\<rparr>)
                         in case toISOString env startDate of
                              Inl e \<Rightarrow> (Inl e, self', w')
                            | Inr s \<Rightarrow>
                                (case toISOString env endDate of
                                   Inl e \<Rightarrow> (Inl e, self', w')
                                 | Inr e \<Rightarrow>
                                     (Inr (JObj
                                        [(''success'', JBool True),
                                         (''totalMeetings'', JNum (int (length fetched))),
                                         (''dateRange'', JObj [(''start'', JStr s), (''end'', JStr e)]),
                                         (''meetings'', JArr (map (\<lambda>m. JObj
                                            [(''id'', JStr (event_id m)),
                                             (''subject'', JStr (subject m)),
                                             (''start'', JStr (dateTime (start m))),
                                             (''organizer'', JStr (name (organizer m))),
                                             (''attendeeCount'', JNum (int (length (attendees m))))]) fetched))]),
                                      self', w')))))))"

text \<open>
  The \<open>switch\<close> of \<open>filter_meetings\<close>. The callbacks of \<open>organizer_domain\<close> call
  \<open>filterValue.toLowerCase()\<close> once per meeting, so a value that is not a string throws
  only when there is a meeting; \<open>keyword\<close> calls it before filtering.
\<close>

definition filter_by :: "Env \<Rightarrow> json option \<Rightarrow> json option \<Rightarrow> string \<Rightarrow> GraphCalendarEvent list \<Rightarrow> exn + GraphCalendarEvent list" where
  "filter_by env filterType filterValue domain ms =
     (if filterType = Some (JStr ''organizer_domain'') then
        (if ms = [] then Inr []
         else (case toLowerCase_of filterValue of
                 Inl e \<Rightarrow> Inl e
               | Inr v \<Rightarrow> Inr (filter (\<lambda>m. includes' (toLowerCase (address (organizer m))) v) ms)))
      else if filterType = Some (JStr ''min_attendees'') then
        (let minCount = (case parseInt env (String_of env filterValue) of None \<Rightarrow> 0 | Some n \<Rightarrow> n)
         in Inr (filter (\<lambda>m. int (length (attendees m)) \<ge> minCount) ms))
      else if filterType = Some (JStr ''keyword'') then
        (case toLowerCase_of filterValue of
           Inl e \<Rightarrow> Inl e
         | Inr keyword \<Rightarrow>
             Inr (filter (\<lambda>m. includes' (toLowerCase (subject m)) keyword
                              \<or> includes' (toLowerCase (bodyPreview m)) keyword) ms))
      else if filterType = Some (JStr ''external_only'') then
        Inr (filter (\<lambda>m. domain_of (address (organizer m)) \<noteq> Some domain) ms)
      else if filterType = Some (JStr ''internal_only'') then
        Inr (filter (\<lambda>m. domain_of (address (organizer m)) = Some domain) ms)
      else Inr ms)"

text \<open>A property whose value may be \<open>undefined\<close>: \<open>JSON.stringify\<close> leaves it out.\<close>

definition optional_field :: "string \<Rightarrow> json option \<Rightarrow> (string \<times> json) list" where
  "optional_field key v = (case v of None \<Rightarrow> [] | Some j \<Rightarrow> [(key, j)])"

definition filter_meetings :: "(CalendarFields, Outside) handler" where
  "filter_meetings env args self w =
     (case self of (c, f) \<Rightarrow>
        (if args = JNull then (Inl (null_property_error ''filter_type''), self, w)
         else
           (let filterType = property args ''filter_type'';
                filterValue = property args ''filter_value''
            in case filter_by env filterType filterValue (userDomain f) (meetings f) of
                 Inl e \<Rightarrow> (Inl e, self, w)
               | Inr filtered \<Rightarrow>
                   (Inr (JObj
                      [(''success'', JBool True),
                       (''filteredCount'', JNum (int (length filtered))),
                       (''filterApplied'', JObj (optional_field ''type'' filterType @
                                                optional_field ''value'' filterValue))]),
                    (c(''meetings'' \<mapsto> VMeetings filtered), f\<lparr>meetings := filtered\<rparr>), w))))"

definition duration_ms :: "Env \<Rightarrow> GraphCalendarEvent \<Rightarrow> int option" where
  "duration_ms env m =
     (case (Date_parse env (dateTime (start m)), Date_parse env (dateTime (end' m))) of
        (Some t1, Some t2) \<Rightarrow> Some (t2 - t1)
      | _ \<Rightarrow> None)"

definition get_meeting_stats :: "(CalendarFields, Outside) handler" where
  "get_meeting_stats env args self w =
     (case self of (c, f) \<Rightarrow>
        (Inr (JObj
           [(''totalMeetings'', JNum (int (length (meetings f)))),
            (''totalHours'', totalHours_of env (map (duration_ms env) (meetings f))),
            (''byDomain'', counts_json (count_keys env
               (map (\<lambda>m. case domain_of (address (organizer m)) of
                            None \<Rightarrow> ''unknown''
                          | Some d \<Rightarrow> if d = [] then ''unknown'' else d) (meetings f)))),
            (''cancelledCount'', JNum (int (length (filter isCancelled (meetings f))))),
            (''allDayCount'', JNum (int (length (filter isAllDay (meetings f)))))]),
         self, w))"

definition new_CalendarAgent :: CalendarAgent where
  "new_CalendarAgent =
     registerTool ''get_meeting_stats'' get_meeting_stats
       (registerTool ''filter_meetings'' filter_meetings
          (registerTool ''fetch_calendar_events'' fetch_calendar_events
             (new_BaseAgent CalendarAgent_config
                \<lparr>msalInstance = None, meetings = [], userDomain = []\<rparr>)))"

definition setMsalInstance :: "MsalInstance \<Rightarrow> CalendarAgent \<Rightarrow> CalendarAgent" where
  "setMsalInstance instance a =
     a\<lparr>members := (members a)
         \<lparr>msalInstance := Some instance,
          userDomain := (case accounts instance of
                           [] \<Rightarrow> userDomain (members a)
                         | email # rest \<Rightarrow> (case domain_of email of None \<Rightarrow> [] | Some d \<Rightarrow> d))\<rparr>\<rparr>"

definition getMeetings :: "CalendarAgent \<Rightarrow> GraphCalendarEvent list" where
  "getMeetings a = meetings (members a)"

section \<open>agents/AnalysisAgent.ts\<close>

text \<open>
  \<open>analysisResults\<close> is the address of the agent's \<open>Map\<close>, allocated when the agent is
  constructed and never reassigned; \<open>set\<close> and \<open>clear\<close> change the object in place.
\<close>

record AnalysisFields =
  analysisResults :: nat
  executiveSummary :: string

type_synonym AnalysisAgent = "(AnalysisFields, Outside) BaseAgent"

text \<open>
  The two functions the agent imports from the LLM service. The handlers are written
  over them, so that the agent can be constructed with the service's own functions or
  with others in their place.
\<close>

type_synonym analyzer = "Env \<Rightarrow> GraphCalendarEvent \<Rightarrow> Outside \<Rightarrow> (exn + MeetingAnalysis) \<times> Outside"

type_synonym summarizer =
  "Env \<Rightarrow> GraphCalendarEvent list \<Rightarrow> (string \<times> MeetingAnalysis) list \<Rightarrow> Outside \<Rightarrow> (exn + string) \<times> Outside"

definition AnalysisAgent_config :: AgentConfig where
  "AnalysisAgent_config =
     \<lparr>agent_name = ''AnalysisAgent'',
      systemPrompt = ''You are an Analysis Agent specialized in analyzing meeting data using AI.'',
      tools = [''analyze_single_meeting'', ''analyze_all_meetings'', ''generate_executive_summary'',
               ''get_action_items'', ''get_meetings_by_category''],
      maxIterations = Some 10\<rparr>"

definition Map_set :: "nat \<Rightarrow> string \<Rightarrow> MeetingAnalysis \<Rightarrow> Outside \<Rightarrow> Outside" where
  "Map_set ref k v w = w\<lparr>heap := (heap w)(ref := AList.update k v (heap w ref))\<rparr>"

definition Map_clear :: "nat \<Rightarrow> Outside \<Rightarrow> Outside" where
  "Map_clear ref w = w\<lparr>heap := (heap w)(ref := [])\<rparr>"

definition analyze_single_meeting :: "analyzer \<Rightarrow> (AnalysisFields, Outside) handler" where
  "analyze_single_meeting analyze env args self w =
     (case self of (c, f) \<Rightarrow>
        (if args = JNull then (Inl (null_property_error ''meeting_id''), self, w)
         else
           (let meetingId = property args ''meeting_id'' in
            case find (\<lambda>m. Some (JStr (event_id m)) = meetingId) (context_meetings c) of
              None \<Rightarrow>
                (Inl (Error (''Meeting with ID '' @ String_of env meetingId @ '' not found'')), self, w)
            | Some meeting \<Rightarrow>
                (case analyze env meeting w of
                   (Inl e, w') \<Rightarrow> (Inl e, self, w')
                 | (Inr analysis, w') \<Rightarrow>
                     (Inr (JObj
                        [(''success'', JBool True),
                         (''meetingId'', JStr (event_id meeting)),
                         (''subject'', JStr (subject meeting)),
                         (''analysis'', analysis_json analysis)]),
                      self, Map_set (analysisResults f) (event_id meeting) analysis w')))))"

text \<open>
  The \<open>for\<close> loop of \<open>analyze_all_meetings\<close>, with its \<open>try\<close> and \<open>catch\<close> around each
  meeting: the state is the counter \<open>analyzed\<close> and the world.
\<close>

primrec analyze_all_loop ::
  "analyzer \<Rightarrow> Env \<Rightarrow> nat \<Rightarrow> GraphCalendarEvent list \<Rightarrow> nat \<times> Outside \<Rightarrow> nat \<times> Outside" where
  "analyze_all_loop analyze env ref [] s = s"
| "analyze_all_loop analyze env ref (meeting # rest) s =
     analyze_all_loop analyze env ref rest
       (if isCancelled meeting then s
        else (case s of (analyzed, w) \<Rightarrow>
                (case analyze env meeting w of
                   (Inr analysis, w') \<Rightarrow> (Suc analyzed, Map_set ref (event_id meeting) analysis w')
                 | (Inl e, w') \<Rightarrow> (analyzed, w'))))"

definition analyze_all_meetings :: "analyzer \<Rightarrow> (AnalysisFields, Outside) handler" where
  "analyze_all_meetings analyze env args self w =
     (case self of (c, f) \<Rightarrow>
        (if length (context_meetings c) = 0
         then (Inr (JObj [(''success'', JBool False),
                          (''error'', JStr ''No meetings found in context. Fetch calendar data first.'')]),
               self, w)
         else
           (case analyze_all_loop analyze env (analysisResults f) (context_meetings c) (0, w) of
              (analyzed, w') \<Rightarrow>
                (Inr (JObj
                   [(''success'', JBool True),
                    (''totalAnalyzed'', JNum (int analyzed)),
                    (''categories'', counts_json (count_keys env (map (\<lambda>(k, a). category a) (heap w' (analysisResults f))))),
                    (''totalActionItems'',
                       JNum (int (sum_list (map (\<lambda>(k, a). length (actionItems a)) (heap w' (analysisResults f))))))]),
                 (c(''analysisResults'' \<mapsto> VMapRef (analysisResults f)), f), w'))))"

definition generate_executive_summary :: "summarizer \<Rightarrow> (AnalysisFields, Outside) handler" where
  "generate_executive_summary summarize env args self w =
     (case self of (c, f) \<Rightarrow>
        (if length (heap w (analysisResults f)) = 0
         then (Inr (JObj [(''success'', JBool False),
                          (''error'', JStr ''No analysis results available. Run analyze_all_meetings first.'')]),
               self, w)
         else
           (case summarize env (context_meetings c) (heap w (analysisResults f)) w of
              (Inl e, w') \<Rightarrow> (Inl e, self, w')
            | (Inr text, w') \<Rightarrow>
                (Inr (JObj [(''success'', JBool True), (''summary'', JStr text)]),
                 (c, f\<lparr>executiveSummary := text\<rparr>), w'))))"

definition get_action_items :: "(AnalysisFields, Outside) handler" where
  "get_action_items env args self w =
     (case self of (c, f) \<Rightarrow>
        (let byMeeting =
               map (\<lambda>(meetingId, analysis).
                      ((case find (\<lambda>m. event_id m = meetingId) (context_meetings c) of
                          None \<Rightarrow> ''Unknown''
                        | Some m \<Rightarrow> if subject m = [] then ''Unknown'' else subject m),
                       actionItems analysis))
                   (filter (\<lambda>(meetingId, analysis). length (actionItems analysis) > 0)
                      (heap w (analysisResults f)))
         in (Inr (JObj
               [(''success'', JBool True),
                (''totalActionItems'', JNum (int (sum_list (map (\<lambda>(m, items). length items) byMeeting)))),
                (''byMeeting'', JArr (map (\<lambda>(m, items). JObj [(''meeting'', JStr m), (''items'', strings_json items)])
                                          byMeeting))]),
             self, w)))"

text \<open>
  Grouping into a plain object of arrays: \<open>if (!byCategory[k]) byCategory[k] = []\<close>,
  then \<open>byCategory[k].push(v)\<close>. A key that the object inherits reads as the inherited
  value, which is truthy and has no \<open>push\<close>: the call throws a \<open>TypeError\<close>.
\<close>

definition group_push :: "Env \<Rightarrow> (string \<times> json) list \<Rightarrow> exn + (string \<times> json list) list" where
  "group_push env kvs =
     (if list_ex (\<lambda>(k, v). inherited env k) kvs
      then Inl (Error ''byCategory[analysis.category].push is not a function'')
      else Inr (foldl (\<lambda>groups (k, v).
                         AList.update k ((case map_of groups k of None \<Rightarrow> [] | Some vs \<Rightarrow> vs) @ [v]) groups)
                  [] kvs))"

definition get_meetings_by_category :: "(AnalysisFields, Outside) handler" where
  "get_meetings_by_category env args self w =
     (case self of (c, f) \<Rightarrow>
        (if args = JNull then (Inl (null_property_error ''category''), self, w)
         else
           (let filterCategory = property args ''category'';
                listed =
                  concat (map (\<lambda>(meetingId, analysis).
                     (case find (\<lambda>m. event_id m = meetingId) (context_meetings c) of
                        None \<Rightarrow> []
                      | Some meeting \<Rightarrow>
                          if truthy filterCategory \<and> Some (JStr (category analysis)) \<noteq> filterCategory then []
                          else [(category analysis,
                                 JObj [(''subject'', JStr (subject meeting)),
                                       (''date'', JStr (dateTime (start meeting)))])]))
                     (heap w (analysisResults f)))
            in case group_push env listed of
                 Inl e \<Rightarrow> (Inl e, self, w)
               | Inr byCategory \<Rightarrow>
                   (Inr (JObj
                      [(''success'', JBool True),
                       (''filter'', (case filterCategory of
                                       None \<Rightarrow> JStr ''all''
                                     | Some j \<Rightarrow> if truthy (Some j) then j else JStr ''all'')),
                       (''byCategory'', JObj (map (\<lambda>(k, vs). (k, JArr vs)) (own_properties byCategory)))]),
                    self, w))))"

text \<open>
  The constructor: the field initialiser \<open>new Map()\<close> allocates the agent's map, then
  \<open>registerTools\<close> binds the five handlers.
\<close>

definition new_AnalysisAgent_with :: "analyzer \<Rightarrow> summarizer \<Rightarrow> Outside \<Rightarrow> AnalysisAgent \<times> Outside" where
  "new_AnalysisAgent_with analyze summarize w =
     (registerTool ''get_meetings_by_category'' get_meetings_by_category
        (registerTool ''get_action_items'' get_action_items
           (registerTool ''generate_executive_summary'' (generate_executive_summary summarize)
              (registerTool ''analyze_all_meetings'' (analyze_all_meetings analyze)
                 (registerTool ''analyze_single_meeting'' (analyze_single_meeting analyze)
                    (new_BaseAgent AnalysisAgent_config
                       \<lparr>analysisResults = next_ref w, executiveSummary = []\<rparr>))))),
      w\<lparr>heap := (heap w)(next_ref w := []), next_ref := Suc (next_ref w)\<rparr>)"

definition new_AnalysisAgent :: "Outside \<Rightarrow> AnalysisAgent \<times> Outside" where
  "new_AnalysisAgent w = new_AnalysisAgent_with analyzeMeeting generateExecutiveSummary w"

definition getAnalysisResults :: "AnalysisAgent \<Rightarrow> nat" where
  "getAnalysisResults a = analysisResults (members a)"

definition getExecutiveSummary :: "AnalysisAgent \<Rightarrow> string" where
  "getExecutiveSummary a = executiveSummary (members a)"

text \<open>The override: \<open>super.reset()\<close>, \<open>analysisResults.clear()\<close>, \<open>executiveSummary = ''\<close>.\<close>

definition AnalysisAgent_reset :: "AnalysisAgent \<times> Outside \<Rightarrow> AnalysisAgent \<times> Outside" where
  "AnalysisAgent_reset s =
     (case s of (a, w) \<Rightarrow>
        ((reset a)\<lparr>members := (members a)\<lparr>executiveSummary := []\<rparr>\<rparr>,
         Map_clear (analysisResults (members a)) w))"

section \<open>agents/ReportAgent.ts\<close>

record EnhancedReportRow = MeetingReportRow +
  aiSummary :: "string option"
  row_category :: "string option"
  row_actionItems :: "string option"
  row_keyTopics :: "string option"

record ReportFields =
  reportData :: "EnhancedReportRow list"

type_synonym ReportAgent = "(ReportFields, Outside) BaseAgent"

definition ReportAgent_config :: AgentConfig where
  "ReportAgent_config =
     \<lparr>agent_name = ''ReportAgent'',
      systemPrompt = ''You are a Report Agent specialized in generating Excel reports from meeting data.'',
      tools = [''generate_excel_report'', ''preview_report'', ''get_report_summary''],
      maxIterations = Some 5\<rparr>"

text \<open>
  \<open>(this.context.analysisResults as Map) || new Map()\<close>: the entries of the map the
  context refers to, none when the key is missing.
\<close>

definition context_analysisResults :: "AgentContext \<Rightarrow> Outside \<Rightarrow> (string \<times> MeetingAnalysis) list" where
  "context_analysisResults c w = (case c ''analysisResults'' of Some (VMapRef ref) \<Rightarrow> heap w ref | _ \<Rightarrow> [])"

definition context_executiveSummary :: "AgentContext \<Rightarrow> string" where
  "context_executiveSummary c = (case c ''executiveSummary'' of Some (VString s) \<Rightarrow> s | _ \<Rightarrow> [])"

text \<open>\<open>this.context.startDate as Date\<close>, \<open>undefined\<close> when the key is missing.\<close>

definition context_date :: "AgentContext \<Rightarrow> string \<Rightarrow> Date option" where
  "context_date c key = (case c key of Some (VDate d) \<Rightarrow> Some d | _ \<Rightarrow> None)"

definition safe_nth :: "'a list \<Rightarrow> nat \<Rightarrow> 'a option" where
  "safe_nth xs i = (if i < length xs then Some (xs ! i) else None)"

text \<open>The callback of \<open>baseRows.map((row, index) => ...)\<close>.\<close>

definition enhance_row ::
  "GraphCalendarEvent list \<Rightarrow> (string \<times> MeetingAnalysis) list \<Rightarrow> bool \<Rightarrow> MeetingReportRow \<times> nat \<Rightarrow> EnhancedReportRow" where
  "enhance_row ms results includeAnalysis ri =
     (case ri of (row, index) \<Rightarrow>
        (let found = (case safe_nth (filter (\<lambda>m. \<not> isCancelled m) ms) index of
                        None \<Rightarrow> None
                      | Some meeting \<Rightarrow> map_of results (event_id meeting))
         in case found of
              Some analysis \<Rightarrow>
                (if includeAnalysis
                 then MeetingReportRow.extend row
                        \<lparr>aiSummary = Some (summary analysis), row_category = Some (category analysis),
                         row_actionItems = Some (join ''; '' (actionItems analysis)),
                         row_keyTopics = Some (join '', '' (keyTopics analysis))\<rparr>
                 else MeetingReportRow.extend row
                        \<lparr>aiSummary = None, row_category = None, row_actionItems = None, row_keyTopics = None\<rparr>)
            | None \<Rightarrow>
                MeetingReportRow.extend row
                  \<lparr>aiSummary = None, row_category = None, row_actionItems = None, row_keyTopics = None\<rparr>))"

definition base_headers :: "string list" where
  "base_headers =
     [''Meeting Name'', ''Date'', ''Start Time'', ''End Time'', ''Organizer Name'', ''Organizer Email'',
      ''Organizer Company'', ''Attendees'', ''Attendee Emails'', ''Attendee Companies'', ''Agenda'']"

definition analysis_headers :: "string list" where
  "analysis_headers = [''AI Summary'', ''Category'', ''Action Items'', ''Key Topics'']"

definition or_empty :: "string option \<Rightarrow> string" where
  "or_empty v = (case v of None \<Rightarrow> [] | Some s \<Rightarrow> s)"

definition row_cells :: "bool \<Rightarrow> EnhancedReportRow \<Rightarrow> string list" where
  "row_cells withAnalysis r =
     [meetingName r, date r, startTime r, endTime r, organizerName r, organizerEmail r,
      organizerCompany r, attendeeNames r, attendeeEmails r, attendeeCompanies r, agenda r]
     @ (if withAnalysis
        then [or_empty (aiSummary r), or_empty (row_category r), or_empty (row_actionItems r),
              or_empty (row_keyTopics r)]
        else [])"

definition toDateString_opt :: "Env \<Rightarrow> Date option \<Rightarrow> string" where
  "toDateString_opt env d =
     (case d of
        None \<Rightarrow> ''undefined''
      | Some None \<Rightarrow> ''Invalid Date''
      | Some (Some t) \<Rightarrow> Date_toDateString env t)"

text \<open>
  The workbook that \<open>generate_excel_report\<close> builds: the sheet \<open>Meetings\<close> with the header
  row and one row of cells per report row, then the sheet \<open>Summary\<close> when an executive
  summary is included.
\<close>

definition summary_sheet :: "Env \<Rightarrow> AgentContext \<Rightarrow> sheet" where
  "summary_sheet env c =
     (''Summary'',
      [[''Executive Summary''], [[]],
       [''Date Range: '' @ toDateString_opt env (context_date c ''startDate'') @ '' - ''
          @ toDateString_opt env (context_date c ''endDate'')],
       [''Total Meetings: '' @ show_nat (length (filter (\<lambda>m. \<not> isCancelled m) (context_meetings c)))],
       [[]], [context_executiveSummary c]])"

definition report_headers :: "bool \<Rightarrow> string list" where
  "report_headers withAnalysis = base_headers @ (if withAnalysis then analysis_headers else [])"

definition report_workbook :: "Env \<Rightarrow> AgentContext \<Rightarrow> bool \<Rightarrow> bool \<Rightarrow> EnhancedReportRow list \<Rightarrow> sheet list" where
  "report_workbook env c withAnalysis withSummary rows =
     (''Meetings'', report_headers withAnalysis # map (row_cells withAnalysis) rows)
     # (if withSummary then [summary_sheet env c] else [])"

definition generate_excel_report :: "(ReportFields, Outside) handler" where
  "generate_excel_report env args self w =
     (case self of (c, f) \<Rightarrow>
        (if args = JNull then (Inl (null_property_error ''include_analysis''), self, w)
         else
           (let ms = context_meetings c;
                results = context_analysisResults c w;
                includeAnalysis = (property args ''include_analysis'' \<noteq> Some (JStr ''false''));
                includeExecSummary = (property args ''include_executive_summary'' \<noteq> Some (JStr ''false''))
            in if length ms = 0
               then (Inr (JObj [(''success'', JBool False),
                                (''error'', JStr ''No meetings found. Please fetch calendar data first.'')]),
                     self, w)
               else
                 (case transformEventsToReportRows env ms of
                    Inl e \<Rightarrow> (Inl e, self, w)
                  | Inr baseRows \<Rightarrow>
                      (let rows = map (enhance_row ms results includeAnalysis) (zip baseRows [0 ..< length baseRows]);
                           self' = (c, f\<lparr>reportData := rows\<rparr>);
                           startDate = context_date c ''startDate'';
                           endDate = context_date c ''endDate''
                       in case generateFilename env
                                 (case startDate of None \<Rightarrow> Some (now env) | Some d \<Rightarrow> d)
                                 (case endDate of None \<Rightarrow> Some (now env) | Some d \<Rightarrow> d) of
                            Inl e \<Rightarrow> (Inl e, self', w)
                          | Inr filename \<Rightarrow>
                              (let withAnalysis = (includeAnalysis \<and> length results > 0);
                                   withSummary = (includeExecSummary \<and> context_executiveSummary c \<noteq> []);
                                   workbook = report_workbook env c withAnalysis withSummary rows
                               in case XLSX_writeFile env filename workbook of
                                    Some e \<Rightarrow> (Inl e, self', w)
                                  | None \<Rightarrow>
                                      (Inr (JObj
                                         [(''success'', JBool True),
                                          (''filename'', JStr filename),
                                          (''rowCount'', JNum (int (length rows))),
                                          (''columnsIncluded'', JNum (int (length (report_headers withAnalysis)))),
                                          (''sheetsIncluded'', JNum (if withSummary then 2 else 1))]),
                                       self',
                                       w\<lparr>files := files w @ [(filename, workbook)]\<rparr>)))))))"

text \<open>\<open>meetings.slice(0, rowCount)\<close>: a negative count is taken from the end.\<close>

definition slice0 :: "'a list \<Rightarrow> int \<Rightarrow> 'a list" where
  "slice0 xs n = (if n \<ge> 0 then take (nat n) xs else take (nat (int (length xs) + n)) xs)"

definition preview_report :: "(ReportFields, Outside) handler" where
  "preview_report env args self w =
     (case self of (c, f) \<Rightarrow>
        (if args = JNull then (Inl (null_property_error ''rows''), self, w)
         else
           (let ms = context_meetings c;
                rowCount = (case parseInt env (String_of env (property args ''rows'')) of
                              None \<Rightarrow> 5
                            | Some n \<Rightarrow> if n = 0 then 5 else n)
            in if length ms = 0
               then (Inr (JObj [(''success'', JBool False), (''error'', JStr ''No meetings found'')]), self, w)
               else
                 (case transformEventsToReportRows env (slice0 ms rowCount) of
                    Inl e \<Rightarrow> (Inl e, self, w)
                  | Inr baseRows \<Rightarrow>
                      (Inr (JObj
                         [(''success'', JBool True),
                          (''previewRows'', JArr (map row_json baseRows)),
                          (''totalAvailable'', JNum (int (length ms)))]),
                       self, w)))))"

definition get_report_summary :: "(ReportFields, Outside) handler" where
  "get_report_summary env args self w =
     (case self of (c, f) \<Rightarrow>
        (let ms = context_meetings c;
             results = context_analysisResults c w;
             companies = remdups (filter (\<lambda>company. company \<noteq> [])
                (concat (map (\<lambda>m. extractCompanyFromEmail (address (organizer m))
                                  # map (\<lambda>a. extractCompanyFromEmail (address (emailAddress a))) (attendees m)) ms)));
             categories = count_keys env (map (\<lambda>(k, a). category a) results)
         in (Inr (JObj
               [(''success'', JBool True),
                (''summary'', JObj
                   [(''totalMeetings'', JNum (int (length (filter (\<lambda>m. \<not> isCancelled m) ms)))),
                    (''cancelledMeetings'', JNum (int (length (filter isCancelled ms)))),
                    (''uniqueCompanies'', JNum (int (length companies))),
                    (''analyzedMeetings'', JNum (int (length results))),
                    (''categories'', (if length categories > 0 then counts_json categories else JStr ''Not analyzed'')),
                    (''hasExecutiveSummary'', JBool (context_executiveSummary c \<noteq> []))])]),
             self, w)))"

definition new_ReportAgent :: ReportAgent where
  "new_ReportAgent =
     registerTool ''get_report_summary'' get_report_summary
       (registerTool ''preview_report'' preview_report
          (registerTool ''generate_excel_report'' generate_excel_report
             (new_BaseAgent ReportAgent_config \<lparr>reportData = []\<rparr>)))"

section \<open>agents/AgentOrchestrator.ts\<close>

record AgentOrchestrator =
  calendarAgent :: CalendarAgent
  analysisAgent :: AnalysisAgent
  reportAgent :: ReportAgent
  sharedContext :: AgentContext

text \<open>
  The options of \<open>generateReport\<close>; the two flags default to \<open>true\<close> when they are
  left out.
\<close>

record ReportGenerationOptions =
  startDate :: Date
  endDate :: Date
  targetUser :: "string option"
  includeAnalysis :: "bool option"
  includeExecutiveSummary :: "bool option"

record ReportResult = Result +
  filename :: "string option"
  downloadUrl :: "string option"

definition new_AgentOrchestrator_with ::
  "analyzer \<Rightarrow> summarizer \<Rightarrow> MsalInstance \<Rightarrow> Outside \<Rightarrow> AgentOrchestrator \<times> Outside" where
  "new_AgentOrchestrator_with analyze summarize msal w =
     (case new_AnalysisAgent_with analyze summarize w of
        (an, w') \<Rightarrow>
          (\<lparr>calendarAgent = setMsalInstance msal new_CalendarAgent, analysisAgent = an,
            reportAgent = new_ReportAgent, sharedContext = Map.empty\<rparr>, w'))"

definition new_AgentOrchestrator :: "MsalInstance \<Rightarrow> Outside \<Rightarrow> AgentOrchestrator \<times> Outside" where
  "new_AgentOrchestrator msal w = new_AgentOrchestrator_with analyzeMeeting generateExecutiveSummary msal w"

definition or_default :: "bool option \<Rightarrow> bool" where
  "or_default b = (case b of None \<Rightarrow> True | Some v \<Rightarrow> v)"

text \<open>\<open>value || fallback\<close> for an optional string.\<close>

definition or_else :: "string option \<Rightarrow> string \<Rightarrow> string" where
  "or_else v fallback = (case v of None \<Rightarrow> fallback | Some s \<Rightarrow> if s = [] then fallback else s)"

definition fetch_instruction :: "Env \<Rightarrow> ReportGenerationOptions \<Rightarrow> exn + string" where
  "fetch_instruction env options =
     (case toISOString env (startDate options) of
        Inl e \<Rightarrow> Inl e
      | Inr s \<Rightarrow>
          (case toISOString env (endDate options) of
             Inl e \<Rightarrow> Inl e
           | Inr e \<Rightarrow>
               Inr (''Fetch all calendar events from '' @ date_part s @ '' to '' @ date_part e
                    @ (case targetUser options of
                         None \<Rightarrow> []
                       | Some u \<Rightarrow> if u = [] then [] else '' for user '' @ u))))"

definition report_instruction :: "bool \<Rightarrow> bool \<Rightarrow> string" where
  "report_instruction withAnalysis withSummary =
     ''Generate an Excel report with include_analysis='' @ show_bool withAnalysis
     @ '' and include_executive_summary='' @ show_bool withSummary"

text \<open>
  Step 2 of \<open>generateReport\<close>, entered when analysis is requested and the LLM is
  configured. The result is the exception that left the step, if any.
\<close>

definition analysis_step ::
  "Env \<Rightarrow> bool \<Rightarrow> AgentOrchestrator \<times> Outside World \<Rightarrow> exn option \<times> AgentOrchestrator \<times> Outside World" where
  "analysis_step env withSummary s =
     (case s of (orch, w) \<Rightarrow>
        (case run env ''Analyze all meetings in the context to extract summaries, categories, and action items''
                (setContext (sharedContext orch) (analysisAgent orch), w) of
           (Inl e, a1, w1) \<Rightarrow> (Some e, orch\<lparr>analysisAgent := a1\<rparr>, w1)
         | (Inr analysisResult, a1, w1) \<Rightarrow>
             (if success analysisResult
              then
                (let orch1 = orch\<lparr>analysisAgent := a1,
                                  sharedContext := (sharedContext orch)(''analysisResults'' \<mapsto> VMapRef (getAnalysisResults a1))\<rparr>
                 in if withSummary
                    then (case run env ''Generate an executive summary of all analyzed meetings'' (a1, w1) of
                            (Inl e, a2, w2) \<Rightarrow> (Some e, orch1\<lparr>analysisAgent := a2\<rparr>, w2)
                          | (Inr summaryResult, a2, w2) \<Rightarrow>
                              (None,
                               orch1\<lparr>analysisAgent := a2,
                                     sharedContext := (sharedContext orch1)(''executiveSummary'' \<mapsto> VString (getExecutiveSummary a2))\<rparr>,
                               w2))
                    else (None, orch1, w1))
              else (None, orch\<lparr>analysisAgent := a1\<rparr>, w1))))"

text \<open>Step 3 of \<open>generateReport\<close> and the final result.\<close>

definition context_string :: "AgentContext option \<Rightarrow> string \<Rightarrow> string option" where
  "context_string d key =
     (case d of None \<Rightarrow> None | Some c \<Rightarrow> (case c key of Some (VString s) \<Rightarrow> Some s | _ \<Rightarrow> None))"

definition report_step ::
  "Env \<Rightarrow> bool \<Rightarrow> bool \<Rightarrow> nat \<Rightarrow> AgentOrchestrator \<times> Outside World \<Rightarrow>
   (exn + ReportResult) \<times> AgentOrchestrator \<times> Outside World" where
  "report_step env withAnalysis withSummary count s =
     (case s of (orch, w) \<Rightarrow>
        (case run env (report_instruction withAnalysis withSummary)
                (setContext (sharedContext orch) (reportAgent orch), w) of
           (Inl e, r1, w1) \<Rightarrow> (Inl e, orch\<lparr>reportAgent := r1\<rparr>, w1)
         | (Inr reportResult, r1, w1) \<Rightarrow>
             (if \<not> success reportResult
              then (Inl (Error (or_else (error reportResult) ''Failed to generate report'')),
                    orch\<lparr>reportAgent := r1\<rparr>, w1)
              else (Inr \<lparr>success = True,
                         message = ''Report generated with '' @ show_nat count @ '' meetings'',
                         error = None,
                         filename = context_string (data reportResult) ''downloadFilename'',
                         downloadUrl = context_string (data reportResult) ''downloadUrl''\<rparr>,
                    orch\<lparr>reportAgent := r1\<rparr>, w1))))"

definition no_meetings_found :: ReportResult where
  "no_meetings_found =
     \<lparr>success = False, message = ''No meetings found in the specified date range'', error = None,
      filename = None, downloadUrl = None\<rparr>"

text \<open>The body of the \<open>try\<close> of \<open>generateReport\<close>.\<close>

definition generateReport_try ::
  "Env \<Rightarrow> ReportGenerationOptions \<Rightarrow> AgentOrchestrator \<times> Outside World \<Rightarrow>
   (exn + ReportResult) \<times> AgentOrchestrator \<times> Outside World" where
  "generateReport_try env options s =
     (case s of (orch, w) \<Rightarrow>
        (case fetch_instruction env options of
           Inl e \<Rightarrow> (Inl e, orch, w)
         | Inr instruction \<Rightarrow>
             (case run env instruction (calendarAgent orch, w) of
                (Inl e, c1, w1) \<Rightarrow> (Inl e, orch\<lparr>calendarAgent := c1\<rparr>, w1)
              | (Inr calendarResult, c1, w1) \<Rightarrow>
                  (if \<not> success calendarResult
                   then (Inl (Error (or_else (error calendarResult) ''Failed to fetch calendar data'')),
                         orch\<lparr>calendarAgent := c1\<rparr>, w1)
                   else
                     (let orch1 = orch\<lparr>calendarAgent := c1, sharedContext := context' c1\<rparr>;
                          ms = getMeetings c1
                      in if length ms = 0 then (Inr no_meetings_found, orch1, w1)
                         else
                           (case (if or_default (includeAnalysis options) \<and> isLLMConfigured (outside w1)
                                  then analysis_step env (or_default (includeExecutiveSummary options)) (orch1, w1)
                                  else (None, orch1, w1)) of
                              (Some e, s2) \<Rightarrow> (Inl e, s2)
                            | (None, s2) \<Rightarrow>
                                report_step env (or_default (includeAnalysis options))
                                  (or_default (includeExecutiveSummary options)) (length ms) s2))))))"

definition generateReport ::
  "Env \<Rightarrow> ReportGenerationOptions \<Rightarrow> AgentOrchestrator \<times> Outside World \<Rightarrow>
   ReportResult \<times> AgentOrchestrator \<times> Outside World" where
  "generateReport env options s =
     (case generateReport_try env options s of
        (Inr result, s') \<Rightarrow> (result, s')
      | (Inl e, s') \<Rightarrow>
          (\<lparr>success = False, message = ''Failed to generate report'', error = Some (errorMessage e),
            filename = None, downloadUrl = None\<rparr>, s'))"

definition runCommand ::
  "Env \<Rightarrow> string \<Rightarrow> AgentOrchestrator \<times> Outside World \<Rightarrow>
   (exn + AgentResponse) \<times> AgentOrchestrator \<times> Outside World" where
  "runCommand env command s =
     (case s of (orch, w) \<Rightarrow>
        (let lowerCommand = toLowerCase command in
         if includes' lowerCommand ''fetch'' \<or> includes' lowerCommand ''calendar''
            \<or> includes' lowerCommand ''meetings''
         then (case run env command (calendarAgent orch, w) of
                 (Inl e, c1, w1) \<Rightarrow> (Inl e, orch\<lparr>calendarAgent := c1\<rparr>, w1)
               | (Inr result, c1, w1) \<Rightarrow>
                   (Inr result, orch\<lparr>calendarAgent := c1, sharedContext := context' c1\<rparr>, w1))
         else if includes' lowerCommand ''analyz'' \<or> includes' lowerCommand ''summar''
            \<or> includes' lowerCommand ''action item'' \<or> includes' lowerCommand ''categor''
         then (case run env command (setContext (sharedContext orch) (analysisAgent orch), w) of
                 (Inl e, a1, w1) \<Rightarrow> (Inl e, orch\<lparr>analysisAgent := a1\<rparr>, w1)
               | (Inr result, a1, w1) \<Rightarrow>
                   (Inr result,
                    orch\<lparr>analysisAgent := a1,
                         sharedContext := (sharedContext orch)
                           (''analysisResults'' \<mapsto> VMapRef (getAnalysisResults a1),
                            ''executiveSummary'' \<mapsto> VString (getExecutiveSummary a1))\<rparr>,
                    w1))
         else if includes' lowerCommand ''report'' \<or> includes' lowerCommand ''excel''
            \<or> includes' lowerCommand ''export'' \<or> includes' lowerCommand ''download''
         then (case run env command (setContext (sharedContext orch) (reportAgent orch), w) of
                 (r, r1, w1) \<Rightarrow> (r, orch\<lparr>reportAgent := r1\<rparr>, w1))
         else (case run env command (calendarAgent orch, w) of
                 (r, c1, w1) \<Rightarrow> (r, orch\<lparr>calendarAgent := c1\<rparr>, w1))))"

text \<open>
  \<open>reset\<close> of the orchestrator: \<open>CalendarAgent\<close> and \<open>ReportAgent\<close> inherit
  \<open>BaseAgent.reset\<close>, \<open>AnalysisAgent\<close> overrides it.
\<close>

definition AgentOrchestrator_reset ::
  "AgentOrchestrator \<times> Outside World \<Rightarrow> AgentOrchestrator \<times> Outside World" where
  "AgentOrchestrator_reset s =
     (case s of (orch, w) \<Rightarrow>
        (case AnalysisAgent_reset (analysisAgent orch, outside w) of
           (an, out) \<Rightarrow>
             (\<lparr>calendarAgent = reset (calendarAgent orch), analysisAgent = an,
               reportAgent = reset (reportAgent orch), sharedContext = Map.empty\<rparr>,
              w\<lparr>outside := out\<rparr>)))"

section \<open>Notions used in the statements\<close>

text \<open>The \<open>n\<close>-th answer of the model endpoint is a response with at least one tool call.\<close>

definition requests_tools :: "Env \<Rightarrow> nat \<Rightarrow> bool" where
  "requests_tools env n =
     (case llm_endpoint env n of
        Inl e \<Rightarrow> False
      | Inr (c, tcs) \<Rightarrow> (case tcs of None \<Rightarrow> False | Some xs \<Rightarrow> xs \<noteq> []))"

text \<open>
  The outcome of each tool call of a batch, in order: what its \<open>try\<close> block produced
  when the calls before it had been processed. \<open>Inl\<close> is a failed call: arguments that
  do not parse, an unknown tool or a handler that threw.
\<close>

primrec batch_outcomes ::
  "Env \<Rightarrow> ToolCall list \<Rightarrow> ('s, 'w) BaseAgent \<times> 'w World \<Rightarrow> (exn + json) list" where
  "batch_outcomes env [] s = []"
| "batch_outcomes env (toolCall # rest) s =
     fst (toolCall_try env toolCall s) # batch_outcomes env rest (process_toolCall env toolCall s)"

definition outcome_message :: "Env \<Rightarrow> ToolCall \<Rightarrow> exn + json \<Rightarrow> AgentMessage" where
  "outcome_message env toolCall outcome =
     (case outcome of
        Inl e \<Rightarrow> tool_error_message env toolCall e
      | Inr result \<Rightarrow> tool_result_message env toolCall result)"

text \<open>
  A message is answered by the messages before it when it is not a tool message, or
  its \<open>tool_call_id\<close> is the id of a tool call of an assistant message among them. A
  history is well formed when each of its messages is answered by the ones before it.
\<close>

definition answered_by :: "AgentMessage list \<Rightarrow> AgentMessage \<Rightarrow> bool" where
  "answered_by earlier m =
     (role m = tool \<longrightarrow>
        (\<exists>y \<in> set earlier. role y = assistant \<and> tool_call_id m \<in> set (map (\<lambda>tc. Some (id' tc)) (requested_calls y))))"

definition tool_messages_answer_requests :: "AgentMessage list \<Rightarrow> bool" where
  "tool_messages_answer_requests h = (\<forall>i < length h. answered_by (take i h) (h ! i))"

text \<open>A sequence of calls of the public methods \<open>run\<close> and \<open>reset\<close> of one agent.\<close>

datatype method_call = Run string | Reset

fun perform ::
  "Env \<Rightarrow> ('s, 'w) BaseAgent \<times> 'w World \<Rightarrow> method_call \<Rightarrow> ('s, 'w) BaseAgent \<times> 'w World" where
  "perform env s (Run userMessage) = snd (run env userMessage s)"
| "perform env (a, w) Reset = (reset a, w)"

definition perform_all ::
  "Env \<Rightarrow> method_call list \<Rightarrow> ('s, 'w) BaseAgent \<times> 'w World \<Rightarrow> ('s, 'w) BaseAgent \<times> 'w World" where
  "perform_all env calls s = foldl (perform env) s calls"

text \<open>The three keyword tests of \<open>runCommand\<close>, by name.\<close>

definition acquisition_keywords :: "string \<Rightarrow> bool" where
  "acquisition_keywords command =
     (includes' (toLowerCase command) ''fetch'' \<or> includes' (toLowerCase command) ''calendar''
      \<or> includes' (toLowerCase command) ''meetings'')"

definition analysis_keywords :: "string \<Rightarrow> bool" where
  "analysis_keywords command =
     (includes' (toLowerCase command) ''analyz'' \<or> includes' (toLowerCase command) ''summar''
      \<or> includes' (toLowerCase command) ''action item'' \<or> includes' (toLowerCase command) ''categor'')"

definition report_keywords :: "string \<Rightarrow> bool" where
  "report_keywords command =
     (includes' (toLowerCase command) ''report'' \<or> includes' (toLowerCase command) ''excel''
      \<or> includes' (toLowerCase command) ''export'' \<or> includes' (toLowerCase command) ''download'')"


text \<open>
  A property of what the handlers can reach (the agent's context and own fields, and
  the outside world) is preserved by the handlers of an agent, and holds in a state of
  the agent and the world.
\<close>

definition handlers_preserve ::
  "Env \<Rightarrow> ('s, 'w) BaseAgent \<Rightarrow> (AgentContext \<times> 's \<Rightarrow> 'w \<Rightarrow> bool) \<Rightarrow> bool" where
  "handlers_preserve env a P =
     (\<forall>nm h args self out r self' out'.
        toolHandlers a nm = Some h \<and> h env args self out = (r, self', out') \<and> P self out \<longrightarrow> P self' out')"

definition holds_in :: "(AgentContext \<times> 's \<Rightarrow> 'w \<Rightarrow> bool) \<Rightarrow> ('s, 'w) BaseAgent \<times> 'w World \<Rightarrow> bool" where
  "holds_in P s = P (context' (fst s), members (fst s)) (outside (snd s))"

text \<open>
  The calendar agent holds no meetings once it has fetched, or when it held none
  before: \<open>g\<close> is the number of calendar fetches made before the run.
\<close>

definition empty_once_fetched :: "nat \<Rightarrow> bool \<Rightarrow> AgentContext \<times> CalendarFields \<Rightarrow> Outside \<Rightarrow> bool" where
  "empty_once_fetched g held_none self w =
     (g \<le> graph_calls w \<and> (g < graph_calls w \<or> held_none \<longrightarrow> meetings (snd self) = []))"




section \<open>Sample inputs\<close>

text \<open>
  A serialiser in the place of \<open>JSON.stringify\<close> (strings are written without escapes)
  and a parser that knows the argument texts of the sample runs.
\<close>

definition quoted :: "string \<Rightarrow> string" where
  "quoted s = [CHR 0x22] @ s @ [CHR 0x22]"

fun stringify :: "json \<Rightarrow> string" where
  "stringify JNull = ''null''"
| "stringify (JBool b) = show_bool b"
| "stringify (JNum n) = (if n < 0 then ''-'' @ show_nat (nat (- n)) else show_nat (nat n))"
| "stringify (JStr s) = quoted s"
| "stringify (JArr xs) = ''['' @ join '','' (map stringify xs) @ '']''"
| "stringify (JObj kvs) = ''{'' @ join '','' (map (\<lambda>(k, v). quoted k @ '':'' @ stringify v) kvs) @ ''}''"

definition lookup_or :: "('a \<times> 'b) list \<Rightarrow> 'b \<Rightarrow> 'a \<Rightarrow> 'b" where
  "lookup_or table d k = (case map_of table k of None \<Rightarrow> d | Some v \<Rightarrow> v)"

definition march_args :: json where
  "march_args = JObj [(''start_date'', JStr ''2024-03-01''), (''end_date'', JStr ''2024-03-31'')]"

definition sample_parse :: "string \<Rightarrow> exn + json" where
  "sample_parse s =
     lookup_or [(stringify march_args, Inr march_args), (''{}'', Inr (JObj []))]
       (Inl (Error ''Unexpected token in JSON'')) s"

definition sample_dates :: "(string \<times> int) list" where
  "sample_dates =
     [(''2024-03-01'', 1709251200000), (''2024-03-31'', 1711843200000),
      (''2024-03-04T10:00:00'', 1709546400000), (''2024-03-04T11:00:00'', 1709550000000)]"

definition sample_isoStrings :: "(int \<times> string) list" where
  "sample_isoStrings =
     [(1709251200000, ''2024-03-01T00:00:00.000Z''), (1711843200000, ''2024-03-31T00:00:00.000Z''),
      (1711929599999, ''2024-03-31T23:59:59.999Z''), (1709546400000, ''2024-03-04T10:00:00.000Z''),
      (1709550000000, ''2024-03-04T11:00:00.000Z''), (1711929600000, ''2024-04-01T00:00:00.000Z''),
      (1714435200000, ''2024-04-30T00:00:00.000Z'')]"

text \<open>Answers of the model endpoint: one tool call, or a final text.\<close>

definition tool_request :: "string \<Rightarrow> string \<Rightarrow> string \<Rightarrow> exn + (string option \<times> ToolCall list option)" where
  "tool_request i nm args = Inr (None, Some [\<lparr>id' = i, function_name = nm, function_arguments = args\<rparr>])"

definition final_text :: "string \<Rightarrow> exn + (string option \<times> ToolCall list option)" where
  "final_text t = Inr (Some t, None)"

text \<open>
  The sample environment: the model endpoint follows a script and then answers with a
  final text, the chat endpoint of the LLM service is down, the calendar holds the
  given events, and the workbook library refuses cells of more than 32767 characters.
\<close>

definition sample_env ::
  "(exn + (string option \<times> ToolCall list option)) list \<Rightarrow> GraphCalendarEvent list \<Rightarrow> Env" where
  "sample_env script evs =
     \<lparr>JSON_parse = sample_parse,
      JSON_stringify = stringify,
      llm_endpoint = (\<lambda>n. if n < length script then script ! n else final_text ''Done.''),
      chat_endpoint = (\<lambda>n. Inl (Error ''LLM API error: 500 - unavailable'')),
      parse_MeetingAnalysis = (\<lambda>s. Inl (Error ''Unexpected token in JSON'')),
      acquireToken = (\<lambda>n. Inr ''token''),
      graph_endpoint = (\<lambda>n. Inr evs),
      Date_parse = map_of sample_dates,
      Date_toISOString = lookup_or sample_isoStrings ''1970-01-01T00:00:00.000Z'',
      Date_toDateString = (\<lambda>t. ''Fri Mar 01 2024''),
      Date_toLocaleTimeString = (\<lambda>t. if t = 1709546400000 then ''10:00'' else ''11:00''),
      Date_setHours_end = (\<lambda>t. t - t mod 86400000 + 86399999),
      parseInt = (\<lambda>s. None),
      js_toString = stringify,
      now = 1709251200000,
      totalHours_of = (\<lambda>ds. JNull),
      XLSX_writeFile = (\<lambda>filename sheets.
         if list_ex (\<lambda>(title, rows). list_ex (list_ex (\<lambda>cell. int (length cell) > 32767)) rows) sheets
         then Some (Error ''Text length must not exceed 32767 characters'')
         else None),
      Object_prototype = map_of
        [(''constructor'', ''function Object() { [native code] }''),
         (''hasOwnProperty'', ''function hasOwnProperty() { [native code] }''),
         (''isPrototypeOf'', ''function isPrototypeOf() { [native code] }''),
         (''propertyIsEnumerable'', ''function propertyIsEnumerable() { [native code] }''),
         (''toLocaleString'', ''function toLocaleString() { [native code] }''),
         (''toString'', ''function toString() { [native code] }''),
         (''valueOf'', ''function valueOf() { [native code] }''),
         (''__defineGetter__'', ''function __defineGetter__() { [native code] }''),
         (''__defineSetter__'', ''function __defineSetter__() { [native code] }''),
         (''__lookupGetter__'', ''function __lookupGetter__() { [native code] }''),
         (''__lookupSetter__'', ''function __lookupSetter__() { [native code] }'')]\<rparr>"

text \<open>An environment whose model endpoint asks for the same tool call for ever.\<close>

definition insisting_env :: "ToolCall list \<Rightarrow> Env" where
  "insisting_env tcs = (sample_env [] [])\<lparr>llm_endpoint := (\<lambda>n. Inr (None, Some tcs))\<rparr>"

definition person :: "string \<Rightarrow> string \<Rightarrow> EmailAddress" where
  "person n a = \<lparr>name = n, address = a\<rparr>"

definition meeting :: "string \<Rightarrow> string \<Rightarrow> string \<Rightarrow> string \<Rightarrow> string \<Rightarrow> bool \<Rightarrow> GraphCalendarEvent" where
  "meeting i subj preview s e cancelled =
     \<lparr>event_id = i, subject = subj, bodyPreview = preview,
      start = \<lparr>dateTime = s, timeZone = ''UTC''\<rparr>, end' = \<lparr>dateTime = e, timeZone = ''UTC''\<rparr>,
      organizer = person ''Ann'' ''ann@acme.com'',
      attendees = [\<lparr>emailAddress = person ''Bob'' ''bob@example.org''\<rparr>],
      isAllDay = False, isCancelled = cancelled\<rparr>"

definition planning :: GraphCalendarEvent where
  "planning = meeting ''m1'' ''Planning'' ''Agenda: roadmap'' ''2024-03-04T10:00:00'' ''2024-03-04T11:00:00'' False"

definition cancelled_sync :: GraphCalendarEvent where
  "cancelled_sync = meeting ''m2'' ''Cancelled sync'' [] ''2024-03-04T10:00:00'' ''2024-03-04T11:00:00'' True"

definition placeholder :: GraphCalendarEvent where
  "placeholder = meeting ''m3'' ''Home'' [] ''2024-03-04T10:00:00'' ''2024-03-04T10:00:00'' False"

definition three_meetings :: "GraphCalendarEvent list" where
  "three_meetings = [planning, cancelled_sync, placeholder]"

definition sample_outside :: Outside where
  "sample_outside =
     \<lparr>currentConfig = \<lparr>baseUrl = ''https://api.openai.com/v1'', apiKey = [], model = ''gpt-4o-mini''\<rparr>,
      chat_calls = 0, token_calls = 0, graph_calls = 0, heap = (\<lambda>r. []), next_ref = 0, files = []\<rparr>"

definition march_options :: ReportGenerationOptions where
  "march_options =
     \<lparr>startDate = Some 1709251200000, endDate = Some 1711843200000, targetUser = None,
      includeAnalysis = Some True, includeExecutiveSummary = Some True\<rparr>"

text \<open>
  A second request, for April, in a calendar that holds the three meetings in March and
  nothing in April: the first fetch returns the three meetings, every later one none.
\<close>

definition april_options :: ReportGenerationOptions where
  "april_options =
     \<lparr>startDate = Some 1711929600000, endDate = Some 1714435200000, targetUser = None,
      includeAnalysis = Some True, includeExecutiveSummary = Some True\<rparr>"

definition march_only_env :: "(exn + (string option \<times> ToolCall list option)) list \<Rightarrow> Env" where
  "march_only_env script =
     (sample_env script three_meetings)\<lparr>graph_endpoint := (\<lambda>n. if n = 0 then Inr three_meetings else Inr [])\<rparr>"

definition signed_in :: MsalInstance where
  "signed_in = \<lparr>accounts = [''me@acme.com'']\<rparr>"

text \<open>
  The script of a whole report: the calendar agent fetches, the analysis agent analyses
  all meetings and is then asked for a summary, the report agent writes the workbook.
\<close>

definition pipeline_script :: "(exn + (string option \<times> ToolCall list option)) list" where
  "pipeline_script =
     [tool_request ''call_1'' ''fetch_calendar_events'' (stringify march_args),
      final_text ''Fetched the meetings.'',
      tool_request ''call_2'' ''analyze_all_meetings'' ''{}'',
      final_text ''Analysis finished.'',
      final_text ''No summary available.'',
      tool_request ''call_3'' ''generate_excel_report'' ''{}'',
      final_text ''Report generated.'']"


definition started :: "AgentOrchestrator \<times> Outside \<Rightarrow> AgentOrchestrator \<times> Outside World" where
  "started s = (case s of (orch, out) \<Rightarrow> (orch, \<lparr>llm_calls = 0, outside = out\<rparr>))"

text \<open>A small agent with two tools: \<open>echo\<close> returns its arguments, \<open>boom\<close> throws.\<close>

definition echo :: "(unit, unit) handler" where
  "echo env args self w = (Inr args, self, w)"

definition boom :: "(unit, unit) handler" where
  "boom env args self w = (Inl (Error ''boom''), self, w)"

definition small_agent :: "nat \<Rightarrow> (unit, unit) BaseAgent" where
  "small_agent n =
     registerTool ''boom'' boom
       (registerTool ''echo'' echo
          (new_BaseAgent \<lparr>agent_name = ''Small'', systemPrompt = ''You are a test agent.'',
                          tools = [''echo'', ''boom''], maxIterations = Some n\<rparr> ()))"

definition idle_world :: "unit World" where
  "idle_world = \<lparr>llm_calls = 0, outside = ()\<rparr>"

definition echo_call :: "string \<Rightarrow> ToolCall" where
  "echo_call i = \<lparr>id' = i, function_name = ''echo'', function_arguments = ''{}''\<rparr>"

definition boom_call :: "string \<Rightarrow> ToolCall" where
  "boom_call i = \<lparr>id' = i, function_name = ''boom'', function_arguments = ''{}''\<rparr>"

text \<open>
  A model answer with three tool calls, the second to the tool that throws, and the
  state in which the batch is processed: the answer was the first of the run.
\<close>

definition mixed_batch :: "ToolCall list" where
  "mixed_batch = [echo_call ''call_1'', boom_call ''call_2'', echo_call ''call_3'']"

definition mixed_env :: Env where
  "mixed_env = sample_env [Inr (None, Some mixed_batch)] []"

definition mixed_start :: "nat \<Rightarrow> (unit, unit) BaseAgent \<times> unit World" where
  "mixed_start n =
     (push \<lparr>role = assistant, content = None, tool_calls = Some mixed_batch, tool_call_id = None\<rparr> (small_agent n),
      idle_world\<lparr>llm_calls := Suc (llm_calls idle_world)\<rparr>)"

text \<open>
  A model answer with four tool calls, of which only the first succeeds: the second
  handler throws, the third names a tool that is not registered, the arguments of the
  fourth are not JSON. The model then finishes.
\<close>

definition missing_call :: "string \<Rightarrow> ToolCall" where
  "missing_call i = \<lparr>id' = i, function_name = ''missing'', function_arguments = ''{}''\<rparr>"

definition garbled_call :: "string \<Rightarrow> ToolCall" where
  "garbled_call i = \<lparr>id' = i, function_name = ''echo'', function_arguments = ''{text:''\<rparr>"

definition faulty_batch :: "ToolCall list" where
  "faulty_batch = [echo_call ''call_1'', boom_call ''call_2'', missing_call ''call_3'', garbled_call ''call_4'']"

definition faulty_env :: Env where
  "faulty_env = sample_env [Inr (None, Some faulty_batch), final_text ''Recovered.''] []"

text \<open>An environment whose model endpoint is unreachable.\<close>

definition offline_env :: Env where
  "offline_env = (sample_env [] [])\<lparr>llm_endpoint := (\<lambda>n. Inl (Error ''Failed to fetch''))\<rparr>"


section \<open>Facts about the agent loop\<close>

lemma executeTool_keeps:
  "executeTool env nm args (a, w) = (r, a', w') \<Longrightarrow>
     conversationHistory a' = conversationHistory a \<and> config a' = config a \<and>
     toolHandlers a' = toolHandlers a \<and> llm_calls w' = llm_calls w"
  by (auto simp: executeTool_def split: option.splits prod.splits)

lemma toolCall_try_keeps:
  "toolCall_try env tc (a, w) = (r, a', w') \<Longrightarrow>
     conversationHistory a' = conversationHistory a \<and> config a' = config a \<and>
     toolHandlers a' = toolHandlers a \<and> llm_calls w' = llm_calls w"
  by (auto simp: toolCall_try_def split: sum.splits dest: executeTool_keeps)

lemma process_toolCall_history:
  "conversationHistory (fst (process_toolCall env tc s)) =
     conversationHistory (fst s) @ [outcome_message env tc (fst (toolCall_try env tc s))]"
  by (cases s; cases "toolCall_try env tc s")
     (auto simp: process_toolCall_def push_def outcome_message_def split: sum.splits prod.splits
           dest: toolCall_try_keeps)

lemma process_toolCall_keeps:
  "config (fst (process_toolCall env tc s)) = config (fst s)"
  "toolHandlers (fst (process_toolCall env tc s)) = toolHandlers (fst s)"
  "llm_calls (snd (process_toolCall env tc s)) = llm_calls (snd s)"
  by (cases s; cases "toolCall_try env tc s";
      auto simp: process_toolCall_def push_def split: sum.splits prod.splits
           dest: toolCall_try_keeps)+

lemma process_toolCalls_history:
  "conversationHistory (fst (process_toolCalls env tcs s)) =
     conversationHistory (fst s) @ map2 (outcome_message env) tcs (batch_outcomes env tcs s)"
  by (induction tcs arbitrary: s) (simp_all add: process_toolCall_history)

lemma process_toolCalls_keeps:
  "config (fst (process_toolCalls env tcs s)) = config (fst s)"
  "toolHandlers (fst (process_toolCalls env tcs s)) = toolHandlers (fst s)"
  "llm_calls (snd (process_toolCalls env tcs s)) = llm_calls (snd s)"
  by (induction tcs arbitrary: s; simp add: process_toolCall_keeps)+

lemma length_batch_outcomes: "length (batch_outcomes env tcs s) = length tcs"
  by (induction tcs arbitrary: s) simp_all

text \<open>What one iteration does, by the answer of the model endpoint.\<close>

lemma iteration_try_failure:
  assumes "llm_endpoint env (llm_calls w) = Inl e"
  shows "iteration_try env (a, w) = (Inl e, a, w\<lparr>llm_calls := Suc (llm_calls w)\<rparr>)"
  using assms by (simp add: iteration_try_def callLLM_def)

lemma iteration_try_final:
  assumes "llm_endpoint env (llm_calls w) = Inr (c, tcs)" "\<not> requests_tools env (llm_calls w)"
  shows "iteration_try env (a, w) =
           (Inr (Some (completed \<lparr>role = assistant, content = c, tool_calls = tcs, tool_call_id = None\<rparr> (context' a))),
            push \<lparr>role = assistant, content = c, tool_calls = tcs, tool_call_id = None\<rparr> a,
            w\<lparr>llm_calls := Suc (llm_calls w)\<rparr>)"
  using assms
  by (auto simp: iteration_try_def callLLM_def requests_tools_def requested_calls_def split: option.splits)

lemma iteration_try_batch:
  assumes "llm_endpoint env (llm_calls w) = Inr (c, Some tcs)" "tcs \<noteq> []"
  shows "iteration_try env (a, w) =
           (Inr None,
            process_toolCalls env tcs
              (push \<lparr>role = assistant, content = c, tool_calls = Some tcs, tool_call_id = None\<rparr> a,
               w\<lparr>llm_calls := Suc (llm_calls w)\<rparr>))"
  using assms by (simp add: iteration_try_def callLLM_def requested_calls_def)

lemma requests_toolsE:
  assumes "requests_tools env n"
  obtains c tcs where "llm_endpoint env n = Inr (c, Some tcs)" "tcs \<noteq> []"
  using assms by (auto simp: requests_tools_def split: sum.splits option.splits)

lemma iteration_try_tools:
  assumes "requests_tools env (llm_calls w)"
  shows "\<exists>a' w'. iteration_try env (a, w) = (Inr None, a', w') \<and> llm_calls w' = Suc (llm_calls w)"
proof -
  from assms obtain c tcs where r: "llm_endpoint env (llm_calls w) = Inr (c, Some tcs)" "tcs \<noteq> []"
    by (rule requests_toolsE)
  let ?s = "process_toolCalls env tcs
              (push \<lparr>role = assistant, content = c, tool_calls = Some tcs, tool_call_id = None\<rparr> a,
               w\<lparr>llm_calls := Suc (llm_calls w)\<rparr>)"
  have "iteration_try env (a, w) = (Inr None, ?s)"
    using r by (rule iteration_try_batch)
  moreover have "llm_calls (snd ?s) = Suc (llm_calls w)"
    by (simp add: process_toolCalls_keeps)
  ultimately show ?thesis by (cases ?s) auto
qed

lemma run_loop_exhausts:
  assumes "\<forall>n. llm_calls w \<le> n \<and> n < llm_calls w + (maxIt - it) \<longrightarrow> requests_tools env n"
  shows "\<exists>a' w'. run_loop env maxIt it (a, w) = (Inr max_iterations_reached, a', w') \<and>
           llm_calls w' = llm_calls w + (maxIt - it)"
  using assms
proof (induction "maxIt - it" arbitrary: it a w)
  case 0
  then show ?case by (simp add: run_loop.simps)
next
  case (Suc k)
  then have lt: "it < maxIt" by simp
  from Suc.prems lt have "requests_tools env (llm_calls w)" by simp
  from iteration_try_tools[OF this, of a]
  obtain a1 w1 where it1: "iteration_try env (a, w) = (Inr None, a1, w1)"
    and n1: "llm_calls w1 = Suc (llm_calls w)" by blast
  have k: "k = maxIt - Suc it" using Suc.hyps(2) by simp
  have "\<forall>n. llm_calls w1 \<le> n \<and> n < llm_calls w1 + (maxIt - Suc it) \<longrightarrow> requests_tools env n"
    using Suc.prems n1 lt by auto
  from Suc.hyps(1)[OF k this, of a1]
  obtain a' w' where r: "run_loop env maxIt (Suc it) (a1, w1) = (Inr max_iterations_reached, a', w')"
    and n: "llm_calls w' = llm_calls w1 + (maxIt - Suc it)" by blast
  have "run_loop env maxIt it (a, w) = run_loop env maxIt (Suc it) (a1, w1)"
    using lt it1 by (simp add: run_loop.simps)
  with r n n1 lt show ?case by simp
qed

text \<open>
  Every run of the loop ends in one of three ways, and the last answer of the model
  endpoint tells which.
\<close>

lemma run_loop_cases:
  "\<exists>r a' w'. run_loop env maxIt it (a, w) = (Inr r, a', w') \<and>
     ((r = max_iterations_reached \<and> llm_calls w' = llm_calls w + (maxIt - it) \<and>
        (\<forall>n. llm_calls w \<le> n \<and> n < llm_calls w' \<longrightarrow> requests_tools env n))
      \<or> (llm_calls w < llm_calls w' \<and> llm_calls w' \<le> llm_calls w + (maxIt - it) \<and>
          (\<forall>n. llm_calls w \<le> n \<and> Suc n < llm_calls w' \<longrightarrow> requests_tools env n) \<and>
          \<not> requests_tools env (llm_calls w' - 1) \<and>
          (case llm_endpoint env (llm_calls w' - 1) of
             Inl e \<Rightarrow> r = agent_failed e
           | Inr (c, tcs) \<Rightarrow>
               r = completed \<lparr>role = assistant, content = c, tool_calls = tcs, tool_call_id = None\<rparr> (context' a'))))"
proof (induction "maxIt - it" arbitrary: it a w)
  case 0
  then show ?case by (auto simp: run_loop.simps)
next
  case (Suc k)
  then have lt: "it < maxIt" by simp
  have k: "k = maxIt - Suc it" using Suc.hyps(2) by simp
  show ?case
  proof (cases "requests_tools env (llm_calls w)")
    case True
    from iteration_try_tools[OF this, of a]
    obtain a1 w1 where it1: "iteration_try env (a, w) = (Inr None, a1, w1)"
      and n1: "llm_calls w1 = Suc (llm_calls w)" by blast
    have eq: "run_loop env maxIt it (a, w) = run_loop env maxIt (Suc it) (a1, w1)"
      using lt it1 by (simp add: run_loop.simps)
    from Suc.hyps(1)[OF k, of a1 w1] obtain r a' w' where
      r: "run_loop env maxIt (Suc it) (a1, w1) = (Inr r, a', w')" and
      c: "(r = max_iterations_reached \<and> llm_calls w' = llm_calls w1 + (maxIt - Suc it) \<and>
            (\<forall>n. llm_calls w1 \<le> n \<and> n < llm_calls w' \<longrightarrow> requests_tools env n))
          \<or> (llm_calls w1 < llm_calls w' \<and> llm_calls w' \<le> llm_calls w1 + (maxIt - Suc it) \<and>
              (\<forall>n. llm_calls w1 \<le> n \<and> Suc n < llm_calls w' \<longrightarrow> requests_tools env n) \<and>
              \<not> requests_tools env (llm_calls w' - 1) \<and>
              (case llm_endpoint env (llm_calls w' - 1) of
                 Inl e \<Rightarrow> r = agent_failed e
               | Inr (c, tcs) \<Rightarrow>
                   r = completed \<lparr>role = assistant, content = c, tool_calls = tcs, tool_call_id = None\<rparr> (context' a')))"
      by blast
    have step: "\<And>n. llm_calls w \<le> n \<Longrightarrow> n = llm_calls w \<or> llm_calls w1 \<le> n"
      using n1 by auto
    from c show ?thesis
    proof
      assume A: "r = max_iterations_reached \<and> llm_calls w' = llm_calls w1 + (maxIt - Suc it) \<and>
            (\<forall>n. llm_calls w1 \<le> n \<and> n < llm_calls w' \<longrightarrow> requests_tools env n)"
      then have "\<forall>n. llm_calls w \<le> n \<and> n < llm_calls w' \<longrightarrow> requests_tools env n"
        using True step by blast
      with A eq r n1 lt show ?thesis by auto
    next
      assume B: "llm_calls w1 < llm_calls w' \<and> llm_calls w' \<le> llm_calls w1 + (maxIt - Suc it) \<and>
              (\<forall>n. llm_calls w1 \<le> n \<and> Suc n < llm_calls w' \<longrightarrow> requests_tools env n) \<and>
              \<not> requests_tools env (llm_calls w' - 1) \<and>
              (case llm_endpoint env (llm_calls w' - 1) of
                 Inl e \<Rightarrow> r = agent_failed e
               | Inr (c, tcs) \<Rightarrow>
                   r = completed \<lparr>role = assistant, content = c, tool_calls = tcs, tool_call_id = None\<rparr> (context' a'))"
      then have "\<forall>n. llm_calls w \<le> n \<and> Suc n < llm_calls w' \<longrightarrow> requests_tools env n"
        using True step by blast
      moreover have "llm_calls w < llm_calls w'" "llm_calls w' \<le> llm_calls w + (maxIt - it)"
        using B n1 lt by auto
      ultimately show ?thesis using B eq r by auto
    qed
  next
    case False
    show ?thesis
    proof (cases "llm_endpoint env (llm_calls w)")
      case (Inl e)
      from iteration_try_failure[OF this, of a] lt
      have "run_loop env maxIt it (a, w) = (Inr (agent_failed e), a, w\<lparr>llm_calls := Suc (llm_calls w)\<rparr>)"
        by (simp add: run_loop.simps)
      with Inl False lt show ?thesis by auto
    next
      case (Inr p)
      obtain c tcs where p: "p = (c, tcs)" by (cases p)
      let ?m = "\<lparr>role = assistant, content = c, tool_calls = tcs, tool_call_id = None\<rparr>"
      from iteration_try_final[OF Inr[unfolded p] False, of a] lt
      have "run_loop env maxIt it (a, w) =
              (Inr (completed ?m (context' a)), push ?m a, w\<lparr>llm_calls := Suc (llm_calls w)\<rparr>)"
        by (simp add: run_loop.simps)
      with Inr p False lt show ?thesis by (auto simp: push_def)
    qed
  qed
qed

section \<open>Well-formed histories\<close>

lemma answered_by_mono:
  "set h \<subseteq> set h' \<Longrightarrow> answered_by h m \<Longrightarrow> answered_by h' m"
  by (auto simp: answered_by_def)

lemma well_formed_snoc:
  "tool_messages_answer_requests (h @ [m]) \<longleftrightarrow> tool_messages_answer_requests h \<and> answered_by h m"
  by (auto simp: tool_messages_answer_requests_def less_Suc_eq nth_append)

lemma well_formed_append:
  "tool_messages_answer_requests h \<Longrightarrow> \<forall>m \<in> set ms. answered_by h m \<Longrightarrow>
     tool_messages_answer_requests (h @ ms)"
proof (induction ms rule: rev_induct)
  case Nil
  then show ?case by simp
next
  case (snoc m ms)
  then have "tool_messages_answer_requests (h @ ms)" by simp
  moreover have "answered_by (h @ ms) m"
    using snoc.prems(2) by (auto intro: answered_by_mono[of h])
  ultimately show ?case
    using well_formed_snoc[of "h @ ms" m] by simp
qed

lemma outcome_message_answered:
  assumes "role am = assistant" "requested_calls am = tcs" "length outs = length tcs"
  shows "\<forall>m \<in> set (map2 (outcome_message env) tcs outs). answered_by (h @ [am]) m"
proof
  fix m assume "m \<in> set (map2 (outcome_message env) tcs outs)"
  then obtain tc oc where m: "m = outcome_message env tc oc" and tc: "tc \<in> set tcs"
    by (auto dest: set_zip_leftD)
  have "tool_call_id m = Some (id' tc)"
    using m by (cases oc) (simp_all add: outcome_message_def tool_error_message_def tool_result_message_def)
  with tc assms show "answered_by (h @ [am]) m"
    by (auto simp: answered_by_def)
qed

lemma iteration_try_history:
  "\<exists>ms. conversationHistory (fst (snd (iteration_try env (a, w)))) = conversationHistory a @ ms \<and>
     (tool_messages_answer_requests (conversationHistory a) \<longrightarrow>
        tool_messages_answer_requests (conversationHistory a @ ms))"
proof (cases "llm_endpoint env (llm_calls w)")
  case (Inl e)
  then show ?thesis by (simp add: iteration_try_failure)
next
  case (Inr p)
  obtain c tcs where p: "p = (c, tcs)" by (cases p)
  let ?m = "\<lparr>role = assistant, content = c, tool_calls = tcs, tool_call_id = None\<rparr>"
  have am: "answered_by (conversationHistory a) ?m" by (simp add: answered_by_def)
  show ?thesis
  proof (cases "requests_tools env (llm_calls w)")
    case False
    from iteration_try_final[OF Inr[unfolded p] False, of a] am
    show ?thesis by (auto simp: push_def well_formed_snoc)
  next
    case True
    with Inr p obtain xs where tcs: "tcs = Some xs" "xs \<noteq> []"
      by (auto simp: requests_tools_def split: option.splits)
    let ?s0 = "(push ?m a, w\<lparr>llm_calls := Suc (llm_calls w)\<rparr>)"
    let ?ans = "map2 (outcome_message env) xs (batch_outcomes env xs ?s0)"
    have h: "conversationHistory (fst (snd (iteration_try env (a, w)))) =
               conversationHistory a @ ?m # ?ans"
      using iteration_try_batch[of env w c xs a] Inr p tcs
      by (simp add: process_toolCalls_history push_def)
    have "\<forall>m \<in> set ?ans. answered_by (conversationHistory a @ [?m]) m"
      by (rule outcome_message_answered) (simp_all add: requested_calls_def tcs length_batch_outcomes)
    then have "tool_messages_answer_requests (conversationHistory a @ [?m]) \<longrightarrow>
                 tool_messages_answer_requests ((conversationHistory a @ [?m]) @ ?ans)"
      using well_formed_append[of "conversationHistory a @ [?m]" ?ans] by blast
    then have "tool_messages_answer_requests (conversationHistory a) \<longrightarrow>
                 tool_messages_answer_requests ((conversationHistory a @ [?m]) @ ?ans)"
      using am by (simp add: well_formed_snoc)
    with h show ?thesis by (intro exI[of _ "?m # ?ans"]) simp
  qed
qed

lemma run_loop_history:
  "\<exists>ms. conversationHistory (fst (snd (run_loop env maxIt it (a, w)))) = conversationHistory a @ ms \<and>
     (tool_messages_answer_requests (conversationHistory a) \<longrightarrow>
        tool_messages_answer_requests (conversationHistory a @ ms))"
proof (induction "maxIt - it" arbitrary: it a w)
  case 0
  then show ?case by (simp add: run_loop.simps)
next
  case (Suc k)
  then have lt: "it < maxIt" by simp
  have k: "k = maxIt - Suc it" using Suc.hyps(2) by simp
  obtain x a1 w1 where it1: "iteration_try env (a, w) = (x, a1, w1)"
    by (cases "iteration_try env (a, w)") auto
  from iteration_try_history[of env a w] it1 obtain ms where
    ms: "conversationHistory a1 = conversationHistory a @ ms"
        "tool_messages_answer_requests (conversationHistory a) \<longrightarrow>
           tool_messages_answer_requests (conversationHistory a @ ms)"
    by auto
  show ?case
  proof (cases x)
    case (Inl e)
    with lt it1 ms show ?thesis by (auto simp: run_loop.simps)
  next
    case (Inr ro)
    show ?thesis
    proof (cases ro)
      case (Some r)
      with Inr lt it1 ms show ?thesis by (auto simp: run_loop.simps)
    next
      case None
      from Suc.hyps(1)[OF k, of a1 w1] obtain ms' where
        ms': "conversationHistory (fst (snd (run_loop env maxIt (Suc it) (a1, w1)))) = conversationHistory a1 @ ms'"
             "tool_messages_answer_requests (conversationHistory a1) \<longrightarrow>
                tool_messages_answer_requests (conversationHistory a1 @ ms')"
        by auto
      have "run_loop env maxIt it (a, w) = run_loop env maxIt (Suc it) (a1, w1)"
        using lt it1 Inr None by (simp add: run_loop.simps)
      with ms ms' show ?thesis by (intro exI[of _ "ms @ ms'"]) simp
    qed
  qed
qed

lemma run_history:
  "\<exists>ms. conversationHistory (fst (snd (run env userMessage (a, w)))) = conversationHistory a @ ms \<and>
     (tool_messages_answer_requests (conversationHistory a) \<longrightarrow>
        tool_messages_answer_requests (conversationHistory a @ ms))"
proof -
  let ?a = "push (user_message userMessage) a"
  let ?n = "case maxIterations (config a) of None \<Rightarrow> 10 | Some n \<Rightarrow> n"
  from run_loop_history[of env ?n 0 ?a w] obtain ms where
    ms: "conversationHistory (fst (snd (run_loop env ?n 0 (?a, w)))) = conversationHistory ?a @ ms"
        "tool_messages_answer_requests (conversationHistory ?a) \<longrightarrow>
           tool_messages_answer_requests (conversationHistory ?a @ ms)"
    by auto
  have u: "answered_by (conversationHistory a) (user_message userMessage)"
    by (simp add: answered_by_def user_message_def)
  show ?thesis
    using ms u
    by (intro exI[of _ "user_message userMessage # ms"])
       (auto simp: run_def push_def well_formed_snoc)
qed

lemma reset_well_formed: "tool_messages_answer_requests (conversationHistory (reset a))"
  by (simp add: reset_def tool_messages_answer_requests_def answered_by_def system_message_def)

lemma perform_well_formed:
  "tool_messages_answer_requests (conversationHistory (fst s)) \<Longrightarrow>
     tool_messages_answer_requests (conversationHistory (fst (perform env s c)))"
proof (cases c)
  case (Run userMessage)
  assume wf: "tool_messages_answer_requests (conversationHistory (fst s))"
  obtain a w where s: "s = (a, w)" by (cases s)
  from run_history[of env userMessage a w] wf s Run show ?thesis by auto
next
  case Reset
  obtain a w where s: "s = (a, w)" by (cases s)
  with Reset show ?thesis by (simp add: reset_well_formed)
qed

lemma perform_all_well_formed:
  "tool_messages_answer_requests (conversationHistory (fst s)) \<Longrightarrow>
     tool_messages_answer_requests (conversationHistory (fst (perform_all env calls s)))"
  unfolding perform_all_def
  by (induction calls arbitrary: s) (simp_all add: perform_well_formed)

lemma well_formed_by_index:
  assumes "tool_messages_answer_requests h" "i < length h" "role (h ! i) = tool"
  shows "\<exists>j < i. role (h ! j) = assistant \<and>
           tool_call_id (h ! i) \<in> set (map (\<lambda>tc. Some (id' tc)) (requested_calls (h ! j)))"
proof -
  from assms have "answered_by (take i h) (h ! i)"
    by (simp add: tool_messages_answer_requests_def)
  with assms(3) obtain y where y: "y \<in> set (take i h)" "role y = assistant"
      "tool_call_id (h ! i) \<in> set (map (\<lambda>tc. Some (id' tc)) (requested_calls y))"
    by (auto simp: answered_by_def)
  from y(1) obtain j where "j < length (take i h)" "take i h ! j = y"
    by (auto simp: in_set_conv_nth)
  with assms(2) have "j < i" "h ! j = y" by auto
  with y show ?thesis by blast
qed


section \<open>Properties preserved by the handlers\<close>

lemma handlers_preserve_cong:
  "toolHandlers a' = toolHandlers a \<Longrightarrow> handlers_preserve env a' P = handlers_preserve env a P"
  by (simp add: handlers_preserve_def)

lemma executeTool_holds:
  assumes "handlers_preserve env (fst s) P" "holds_in P s"
  shows "holds_in P (snd (executeTool env nm args s))"
proof (cases s)
  case (Pair a w)
  show ?thesis
  proof (cases "toolHandlers a nm")
    case None
    with Pair assms(2) show ?thesis by (simp add: executeTool_def holds_in_def)
  next
    case (Some h)
    obtain r c fs out where h: "h env args (context' a, members a) (outside w) = (r, (c, fs), out)"
      by (cases "h env args (context' a, members a) (outside w)") auto
    from assms Pair Some h have "P (c, fs) out"
      unfolding handlers_preserve_def holds_in_def by (metis fst_conv snd_conv)
    with Pair Some h show ?thesis by (simp add: executeTool_def holds_in_def)
  qed
qed

lemma process_toolCall_holds:
  assumes "handlers_preserve env (fst s) P" "holds_in P s"
  shows "holds_in P (process_toolCall env tc s)"
proof -
  have t: "holds_in P (snd (toolCall_try env tc s))"
    using assms by (auto simp: toolCall_try_def executeTool_holds split: sum.splits)
  obtain x a w where x: "toolCall_try env tc s = (x, a, w)"
    by (cases "toolCall_try env tc s") auto
  with t show ?thesis
    by (cases x) (simp_all add: process_toolCall_def push_def holds_in_def)
qed

lemma process_toolCalls_holds:
  assumes "handlers_preserve env (fst s) P" "holds_in P s"
  shows "holds_in P (process_toolCalls env tcs s)"
  using assms
proof (induction tcs arbitrary: s)
  case Nil
  then show ?case by simp
next
  case (Cons tc tcs)
  have "handlers_preserve env (fst (process_toolCall env tc s)) P"
    using Cons.prems(1) by (simp add: handlers_preserve_cong[OF process_toolCall_keeps(2)])
  moreover have "holds_in P (process_toolCall env tc s)"
    using Cons.prems by (rule process_toolCall_holds)
  ultimately show ?case using Cons.IH by simp
qed

lemma iteration_try_holds:
  assumes "handlers_preserve env a P" "holds_in P (a, w)"
  shows "holds_in P (snd (iteration_try env (a, w))) \<and>
         toolHandlers (fst (snd (iteration_try env (a, w)))) = toolHandlers a"
proof (cases "llm_endpoint env (llm_calls w)")
  case (Inl e)
  with assms(2) show ?thesis by (simp add: iteration_try_failure holds_in_def)
next
  case (Inr p)
  obtain c tcs where p: "p = (c, tcs)" by (cases p)
  let ?m = "\<lparr>role = assistant, content = c, tool_calls = tcs, tool_call_id = None\<rparr>"
  show ?thesis
  proof (cases "requests_tools env (llm_calls w)")
    case False
    from iteration_try_final[OF Inr[unfolded p] False, of a] assms(2)
    show ?thesis by (simp add: push_def holds_in_def)
  next
    case True
    with Inr p obtain xs where tcs: "tcs = Some xs" "xs \<noteq> []"
      by (auto simp: requests_tools_def split: option.splits)
    let ?s0 = "(push ?m a, w\<lparr>llm_calls := Suc (llm_calls w)\<rparr>)"
    have it: "iteration_try env (a, w) = (Inr None, process_toolCalls env xs ?s0)"
      using iteration_try_batch[of env w c xs a] Inr p tcs by simp
    have "handlers_preserve env (fst ?s0) P"
      using assms(1) by (simp add: handlers_preserve_def push_def)
    moreover have "holds_in P ?s0"
      using assms(2) by (simp add: holds_in_def push_def)
    ultimately have "holds_in P (process_toolCalls env xs ?s0)"
      by (rule process_toolCalls_holds)
    moreover have "toolHandlers (fst (process_toolCalls env xs ?s0)) = toolHandlers a"
      by (simp add: process_toolCalls_keeps push_def)
    ultimately show ?thesis by (simp add: it)
  qed
qed

lemma run_loop_holds:
  assumes "handlers_preserve env a P" "holds_in P (a, w)"
  shows "holds_in P (snd (run_loop env maxIt it (a, w))) \<and>
         toolHandlers (fst (snd (run_loop env maxIt it (a, w)))) = toolHandlers a"
  using assms
proof (induction "maxIt - it" arbitrary: it a w)
  case 0
  then show ?case by (simp add: run_loop.simps)
next
  case (Suc k)
  then have lt: "it < maxIt" by simp
  have k: "k = maxIt - Suc it" using Suc.hyps(2) by simp
  obtain x a1 w1 where it1: "iteration_try env (a, w) = (x, a1, w1)"
    by (cases "iteration_try env (a, w)") auto
  from iteration_try_holds[OF Suc.prems] it1
  have h1: "holds_in P (a1, w1)" and t1: "toolHandlers a1 = toolHandlers a" by simp_all
  show ?case
  proof (cases x)
    case (Inl e)
    with lt it1 h1 t1 show ?thesis by (simp add: run_loop.simps)
  next
    case (Inr ro)
    show ?thesis
    proof (cases ro)
      case (Some r)
      with Inr lt it1 h1 t1 show ?thesis by (simp add: run_loop.simps)
    next
      case None
      have "handlers_preserve env a1 P"
        using Suc.prems(1) by (simp add: handlers_preserve_cong[OF t1])
      from Suc.hyps(1)[OF k this h1] t1
      have "holds_in P (snd (run_loop env maxIt (Suc it) (a1, w1))) \<and>
            toolHandlers (fst (snd (run_loop env maxIt (Suc it) (a1, w1)))) = toolHandlers a"
        by simp
      moreover have "run_loop env maxIt it (a, w) = run_loop env maxIt (Suc it) (a1, w1)"
        using lt it1 Inr None by (simp add: run_loop.simps)
      ultimately show ?thesis by simp
    qed
  qed
qed

lemma run_holds:
  assumes "handlers_preserve env a P" "holds_in P (a, w)"
  shows "holds_in P (snd (run env userMessage (a, w))) \<and>
         toolHandlers (fst (snd (run env userMessage (a, w)))) = toolHandlers a"
proof -
  let ?a = "push (user_message userMessage) a"
  have "handlers_preserve env ?a P"
    using assms(1) by (simp add: handlers_preserve_def push_def)
  moreover have "holds_in P (?a, w)"
    using assms(2) by (simp add: holds_in_def push_def)
  ultimately show ?thesis
    using run_loop_holds[of env ?a P w]
    by (simp add: run_def push_def)
qed

lemma CalendarAgent_tools:
  assumes "toolHandlers (setMsalInstance msal new_CalendarAgent) nm = Some h"
  shows "h = fetch_calendar_events \<or> h = filter_meetings \<or> h = get_meeting_stats"
  using assms
  by (simp add: new_CalendarAgent_def registerTool_def setMsalInstance_def new_BaseAgent_def
           split: if_splits)

section \<open>The iteration cap\<close>

lemma insisting_env_requests: "tcs \<noteq> [] \<Longrightarrow> requests_tools (insisting_env tcs) n"
  by (simp add: requests_tools_def insisting_env_def)

lemma small_agent_cap: "maxIterations (config (small_agent n)) = Some n"
  by (simp add: small_agent_def registerTool_def new_BaseAgent_def)

text \<open>
  Claim C1, amended. For an agent configured with \<open>maxIterations = N\<close>: if each of the
  next \<open>N\<close> answers of the model endpoint requests at least one tool call, \<open>run\<close>
  returns a failure result whose message is \<open>Agent reached maximum iterations\<close> and
  whose error is \<open>Max iterations exceeded\<close>, after exactly \<open>N\<close> model queries.
\<close>

theorem run_stops_at_the_iteration_cap:
  assumes "maxIterations (config a) = Some N"
    and "\<forall>n. llm_calls w \<le> n \<and> n < llm_calls w + N \<longrightarrow> requests_tools env n"
  shows "\<exists>r a' w'. run env userMessage (a, w) = (Inr r, a', w') \<and>
           success r = False \<and> message r = ''Agent reached maximum iterations'' \<and>
           error r = Some ''Max iterations exceeded'' \<and>
           llm_calls w' = llm_calls w + N"
proof -
  let ?a = "push (user_message userMessage) a"
  from assms(2) have "\<forall>n. llm_calls w \<le> n \<and> n < llm_calls w + (N - 0) \<longrightarrow> requests_tools env n"
    by simp
  from run_loop_exhausts[OF this, of ?a] obtain a' w' where
    "run_loop env N 0 (?a, w) = (Inr max_iterations_reached, a', w')" "llm_calls w' = llm_calls w + N"
    by auto
  with assms(1) show ?thesis
    by (simp add: run_def max_iterations_reached_def)
qed

text \<open>With a cap of two and a model that always asks for \<open>echo\<close>: two queries, then the failure.\<close>

theorem run_stops_at_the_iteration_cap_witness:
  "\<exists>r a' w'. run (insisting_env [echo_call ''call_1'']) ''go'' (small_agent 2, idle_world) = (Inr r, a', w') \<and>
      success r = False \<and> message r = ''Agent reached maximum iterations'' \<and>
      error r = Some ''Max iterations exceeded'' \<and> llm_calls w' = 2"
  using run_stops_at_the_iteration_cap[of "small_agent 2" 2 idle_world "insisting_env [echo_call ''call_1'']" "''go''"]
  by (simp add: small_agent_cap insisting_env_requests idle_world_def numeral_2_eq_2)

text \<open>
  The message of that failure is not the text \<open>maximum iterations exceeded\<close> of the
  claim as it was stated.
\<close>

theorem iteration_cap_message_counterexample:
  "\<not> isl (fst (run (insisting_env [echo_call ''call_1'']) ''go'' (small_agent 1, idle_world)))
   \<and> success (projr (fst (run (insisting_env [echo_call ''call_1'']) ''go'' (small_agent 1, idle_world)))) = False
   \<and> message (projr (fst (run (insisting_env [echo_call ''call_1'']) ''go'' (small_agent 1, idle_world))))
       = ''Agent reached maximum iterations''
   \<and> message (projr (fst (run (insisting_env [echo_call ''call_1'']) ''go'' (small_agent 1, idle_world))))
       \<noteq> ''maximum iterations exceeded''"
  by code_simp

section \<open>Tool-call batches\<close>

lemma outcome_message_role_id:
  "role (outcome_message env tc oc) = tool \<and> tool_call_id (outcome_message env tc oc) = Some (id' tc)"
  by (cases oc) (simp_all add: outcome_message_def tool_error_message_def tool_result_message_def)

lemma run_loop_queries_again:
  assumes "it < maxIt"
  shows "llm_calls w < llm_calls (snd (snd (run_loop env maxIt it (a, w))))"
proof -
  from run_loop_cases[of env maxIt it a w] obtain r a' w' where
    r: "run_loop env maxIt it (a, w) = (Inr r, a', w')" and
    c: "llm_calls w' = llm_calls w + (maxIt - it) \<or> llm_calls w < llm_calls w'"
    by blast
  from c assms have "llm_calls w < llm_calls w'" by auto
  with r show ?thesis by simp
qed

text \<open>
  Claim C2, amended. When the model answers with a batch \<open>tcs\<close> of \<open>k\<close> tool calls,
  \<open>run\<close> appends exactly \<open>k\<close> tool messages, the \<open>i\<close>-th tagged with the id of the
  \<open>i\<close>-th call; when exactly one call of the batch fails (its handler throws, its tool
  is unknown or its arguments do not parse), its message is the one that encodes an
  error and the other \<open>k - 1\<close> encode the results of their handlers. The loop goes on
  with the next iteration whatever the outcomes were, and the next model query is
  issued when the iteration cap has not been reached.
\<close>

theorem tool_batch_is_answered_call_by_call:
  assumes response: "llm_endpoint env (llm_calls w) = Inr (c, Some tcs)" "tcs \<noteq> []"
    and budget: "iterations < maxIt"
    and s0: "s0 = (push \<lparr>role = assistant, content = c, tool_calls = Some tcs, tool_call_id = None\<rparr> a,
                   w\<lparr>llm_calls := Suc (llm_calls w)\<rparr>)"
    and outcomes: "outcomes = batch_outcomes env tcs s0"
    and answers: "answers = map2 (outcome_message env) tcs outcomes"
  shows "conversationHistory (fst (process_toolCalls env tcs s0)) = conversationHistory (fst s0) @ answers
       \<and> length answers = length tcs
       \<and> (\<forall>i < length tcs. role (answers ! i) = tool \<and> tool_call_id (answers ! i) = Some (id' (tcs ! i)))
       \<and> (\<forall>i < length tcs. (\<forall>j < length tcs. isl (outcomes ! j) \<longleftrightarrow> j = i) \<longrightarrow>
             answers ! i = tool_error_message env (tcs ! i) (projl (outcomes ! i)) \<and>
             (\<forall>j < length tcs. j \<noteq> i \<longrightarrow>
                answers ! j = tool_result_message env (tcs ! j) (projr (outcomes ! j))))
       \<and> run_loop env maxIt iterations (a, w) = run_loop env maxIt (Suc iterations) (process_toolCalls env tcs s0)
       \<and> (Suc iterations < maxIt \<longrightarrow>
             llm_calls w + 2 \<le> llm_calls (snd (snd (run_loop env maxIt iterations (a, w)))))"
proof -
  have len: "length outcomes = length tcs"
    by (simp add: outcomes length_batch_outcomes)
  have nth: "\<And>i. i < length tcs \<Longrightarrow> answers ! i = outcome_message env (tcs ! i) (outcomes ! i)"
    by (simp add: answers len)
  have 1: "conversationHistory (fst (process_toolCalls env tcs s0)) = conversationHistory (fst s0) @ answers"
    by (simp add: process_toolCalls_history answers outcomes)
  have 2: "length answers = length tcs"
    by (simp add: answers len)
  have 3: "\<forall>i < length tcs. role (answers ! i) = tool \<and> tool_call_id (answers ! i) = Some (id' (tcs ! i))"
    by (simp add: nth outcome_message_role_id)
  have 4: "\<forall>i < length tcs. (\<forall>j < length tcs. isl (outcomes ! j) \<longleftrightarrow> j = i) \<longrightarrow>
             answers ! i = tool_error_message env (tcs ! i) (projl (outcomes ! i)) \<and>
             (\<forall>j < length tcs. j \<noteq> i \<longrightarrow>
                answers ! j = tool_result_message env (tcs ! j) (projr (outcomes ! j)))"
  proof (intro allI impI conjI)
    fix i assume i: "i < length tcs" and one: "\<forall>j < length tcs. isl (outcomes ! j) \<longleftrightarrow> j = i"
    from one i have "isl (outcomes ! i)" by simp
    then show "answers ! i = tool_error_message env (tcs ! i) (projl (outcomes ! i))"
      using nth[OF i] by (cases "outcomes ! i") (simp_all add: outcome_message_def)
  next
    fix i j assume "i < length tcs" and one: "\<forall>j < length tcs. isl (outcomes ! j) \<longleftrightarrow> j = i"
      and j: "j < length tcs" "j \<noteq> i"
    from one j have "\<not> isl (outcomes ! j)" by simp
    then show "answers ! j = tool_result_message env (tcs ! j) (projr (outcomes ! j))"
      using nth[OF j(1)] by (cases "outcomes ! j") (simp_all add: outcome_message_def)
  qed
  have it: "iteration_try env (a, w) = (Inr None, process_toolCalls env tcs s0)"
    using iteration_try_batch[OF response, of a] by (simp add: s0)
  have 5: "run_loop env maxIt iterations (a, w) =
             run_loop env maxIt (Suc iterations) (process_toolCalls env tcs s0)"
    using budget it by (simp add: run_loop.simps)
  have n1: "llm_calls (snd (process_toolCalls env tcs s0)) = Suc (llm_calls w)"
    by (simp add: process_toolCalls_keeps s0)
  have 6: "Suc iterations < maxIt \<longrightarrow>
             llm_calls w + 2 \<le> llm_calls (snd (snd (run_loop env maxIt iterations (a, w))))"
  proof
    assume more: "Suc iterations < maxIt"
    obtain a1 w1 where s1: "process_toolCalls env tcs s0 = (a1, w1)"
      by (cases "process_toolCalls env tcs s0")
    from run_loop_queries_again[OF more, of w1 env a1] s1 n1 5
    show "llm_calls w + 2 \<le> llm_calls (snd (snd (run_loop env maxIt iterations (a, w))))"
      by simp
  qed
  from 1 2 3 4 5 6 show ?thesis by blast
qed

lemma mixed_outcomes:
  "batch_outcomes mixed_env mixed_batch (mixed_start 3) = [Inr (JObj []), Inl (Error ''boom''), Inr (JObj [])]"
  by code_simp

text \<open>A batch of three calls whose second handler throws, with a cap of three.\<close>

theorem tool_batch_is_answered_call_by_call_witness:
  "conversationHistory (fst (process_toolCalls mixed_env mixed_batch (mixed_start 3))) =
     conversationHistory (fst (mixed_start 3)) @
       [tool_result_message mixed_env (echo_call ''call_1'') (JObj []),
        tool_error_message mixed_env (boom_call ''call_2'') (Error ''boom''),
        tool_result_message mixed_env (echo_call ''call_3'') (JObj [])]
   \<and> llm_calls idle_world + 2 \<le> llm_calls (snd (snd (run_loop mixed_env 3 0 (small_agent 3, idle_world))))"
proof -
  have response: "llm_endpoint mixed_env (llm_calls idle_world) = Inr (None, Some mixed_batch)"
    by (simp add: mixed_env_def sample_env_def idle_world_def)
  have nonempty: "mixed_batch \<noteq> []"
    by (simp add: mixed_batch_def)
  have budget: "(0::nat) < 3" by simp
  have start: "mixed_start 3 =
      (push \<lparr>role = assistant, content = None, tool_calls = Some mixed_batch, tool_call_id = None\<rparr> (small_agent 3),
       idle_world\<lparr>llm_calls := Suc (llm_calls idle_world)\<rparr>)"
    by (simp add: mixed_start_def)
  note T = tool_batch_is_answered_call_by_call[OF response nonempty budget start refl refl]
  have answers: "map2 (outcome_message mixed_env) mixed_batch (batch_outcomes mixed_env mixed_batch (mixed_start 3)) =
       [tool_result_message mixed_env (echo_call ''call_1'') (JObj []),
        tool_error_message mixed_env (boom_call ''call_2'') (Error ''boom''),
        tool_result_message mixed_env (echo_call ''call_3'') (JObj [])]"
    unfolding mixed_outcomes by (simp add: mixed_batch_def outcome_message_def)
  from T have "conversationHistory (fst (process_toolCalls mixed_env mixed_batch (mixed_start 3))) =
      conversationHistory (fst (mixed_start 3)) @
        map2 (outcome_message mixed_env) mixed_batch (batch_outcomes mixed_env mixed_batch (mixed_start 3))"
    by blast
  moreover from T have "Suc 0 < 3 \<longrightarrow>
      llm_calls idle_world + 2 \<le> llm_calls (snd (snd (run_loop mixed_env 3 0 (small_agent 3, idle_world))))"
    by blast
  ultimately show ?thesis using answers by simp
qed

text \<open>
  With a cap of one the same batch is answered by three tool messages and the run ends
  in the iteration-cap failure: no second model query is issued.
\<close>

theorem run_continues_counterexample:
  "length (conversationHistory (fst (snd (run mixed_env ''go'' (small_agent 1, idle_world))))) = 6
   \<and> map role (conversationHistory (fst (snd (run mixed_env ''go'' (small_agent 1, idle_world)))))
       = [system, user, assistant, tool, tool, tool]
   \<and> llm_calls (snd (snd (run mixed_env ''go'' (small_agent 1, idle_world)))) = 1
   \<and> success (projr (fst (run mixed_env ''go'' (small_agent 1, idle_world)))) = False"
  by code_simp

section \<open>The conversation history\<close>

text \<open>
  Claim C7. In the history of an agent after any sequence of \<open>run\<close> and \<open>reset\<close>
  calls, every tool message carries the id of a tool call of an assistant message
  before it (so no tool message comes before the first assistant message); and \<open>run\<close>
  only appends: the history before it is a prefix of the history after it.
\<close>

theorem tool_messages_always_answer_a_request:
  fixes handlers :: "string \<rightharpoonup> ('s, 'w) handler" and a :: "('t, 'v) BaseAgent"
  shows "(\<forall>h. h = conversationHistory (fst (perform_all env calls ((new_BaseAgent cfg fs)\<lparr>toolHandlers := handlers\<rparr>, w))) \<longrightarrow>
           (\<forall>i < length h. role (h ! i) = tool \<longrightarrow>
              (\<exists>j < i. role (h ! j) = assistant \<and>
                 tool_call_id (h ! i) \<in> set (map (\<lambda>tc. Some (id' tc)) (requested_calls (h ! j))))))
       \<and> prefix (conversationHistory a) (conversationHistory (fst (snd (run env' userMessage (a, w')))))"
proof
  let ?a0 = "(new_BaseAgent cfg fs)\<lparr>toolHandlers := handlers\<rparr>"
  have "tool_messages_answer_requests (conversationHistory (fst (?a0, w)))"
    by (simp add: new_BaseAgent_def tool_messages_answer_requests_def answered_by_def system_message_def)
  then have "tool_messages_answer_requests (conversationHistory (fst (perform_all env calls (?a0, w))))"
    by (rule perform_all_well_formed)
  then show "\<forall>h. h = conversationHistory (fst (perform_all env calls (?a0, w))) \<longrightarrow>
           (\<forall>i < length h. role (h ! i) = tool \<longrightarrow>
              (\<exists>j < i. role (h ! j) = assistant \<and>
                 tool_call_id (h ! i) \<in> set (map (\<lambda>tc. Some (id' tc)) (requested_calls (h ! j)))))"
    using well_formed_by_index by blast
next
  from run_history[of env' userMessage a w']
  show "prefix (conversationHistory a) (conversationHistory (fst (snd (run env' userMessage (a, w')))))"
    by (auto simp: prefix_def)
qed

text \<open>After \<open>reset\<close> and a run with the batch of three calls, at the second tool message.\<close>

theorem tool_messages_always_answer_a_request_witness:
  "role (conversationHistory (fst (perform_all mixed_env [Reset, Run ''go''] (small_agent 3, idle_world))) ! 4) = tool
   \<and> (\<exists>j < 4. role (conversationHistory (fst (perform_all mixed_env [Reset, Run ''go''] (small_agent 3, idle_world))) ! j) = assistant
         \<and> tool_call_id (conversationHistory (fst (perform_all mixed_env [Reset, Run ''go''] (small_agent 3, idle_world))) ! 4)
             \<in> set (map (\<lambda>tc. Some (id' tc))
                  (requested_calls (conversationHistory (fst (perform_all mixed_env [Reset, Run ''go''] (small_agent 3, idle_world))) ! j))))
   \<and> prefix (conversationHistory (small_agent 3))
        (conversationHistory (fst (snd (run mixed_env ''go'' (small_agent 3, idle_world)))))"
proof -
  let ?h = "conversationHistory (fst (perform_all mixed_env [Reset, Run ''go''] (small_agent 3, idle_world)))"
  have agent: "small_agent 3 =
      (new_BaseAgent \<lparr>agent_name = ''Small'', systemPrompt = ''You are a test agent.'',
                      tools = [''echo'', ''boom''], maxIterations = Some 3\<rparr> ())
        \<lparr>toolHandlers := [''echo'' \<mapsto> echo, ''boom'' \<mapsto> boom]\<rparr>"
    by (simp add: small_agent_def registerTool_def new_BaseAgent_def)
  have len: "4 < length ?h" by code_simp
  have r: "role (?h ! 4) = tool" by code_simp
  note T = tool_messages_always_answer_a_request[where env = mixed_env and calls = "[Reset, Run ''go'']"
      and cfg = "\<lparr>agent_name = ''Small'', systemPrompt = ''You are a test agent.'',
        tools = [''echo'', ''boom''], maxIterations = Some 3\<rparr>" and fs = "()"
      and handlers = "[''echo'' \<mapsto> echo, ''boom'' \<mapsto> boom]" and w = idle_world
      and a = "small_agent 3" and env' = mixed_env and userMessage = "''go''" and w' = idle_world,
      folded agent]
  from T len r show ?thesis by blast
qed

section \<open>Totality of run\<close>

lemma toolCall_try_malformed:
  "JSON_parse env (function_arguments tc) = Inl e \<Longrightarrow> fst (toolCall_try env tc s) = Inl e"
  by (simp add: toolCall_try_def)

lemma toolCall_try_unknown:
  "JSON_parse env (function_arguments tc) = Inr args \<Longrightarrow> toolHandlers (fst s) (function_name tc) = None \<Longrightarrow>
     fst (toolCall_try env tc s) = Inl (Error (''Unknown tool: '' @ function_name tc))"
  by (cases s) (simp add: toolCall_try_def executeTool_def)

lemma toolCall_try_throws:
  "JSON_parse env (function_arguments tc) = Inr args \<Longrightarrow> toolHandlers (fst s) (function_name tc) = Some h \<Longrightarrow>
   fst (h env args (context' (fst s), members (fst s)) (outside (snd s))) = Inl e \<Longrightarrow>
     fst (toolCall_try env tc s) = Inl e"
  by (cases s) (auto simp: toolCall_try_def executeTool_def split: prod.splits)

lemma batch_outcomes_nth:
  "j < length tcs \<Longrightarrow>
     batch_outcomes env tcs s ! j = fst (toolCall_try env (tcs ! j) (process_toolCalls env (take j tcs) s))"
proof (induction tcs arbitrary: s j)
  case Nil
  then show ?case by simp
next
  case (Cons tc tcs)
  then show ?case by (cases j) simp_all
qed

lemma run_loop_answers_the_batch:
  assumes "it < maxIt" "llm_endpoint env (llm_calls w) = Inr (c, Some tcs)" "tcs \<noteq> []"
  shows "prefix (conversationHistory a
                 @ [\<lparr>role = assistant, content = c, tool_calls = Some tcs, tool_call_id = None\<rparr>]
                 @ map2 (outcome_message env) tcs
                     (batch_outcomes env tcs
                        (push \<lparr>role = assistant, content = c, tool_calls = Some tcs, tool_call_id = None\<rparr> a,
                         w\<lparr>llm_calls := Suc (llm_calls w)\<rparr>)))
           (conversationHistory (fst (snd (run_loop env maxIt it (a, w)))))"
proof -
  let ?m = "\<lparr>role = assistant, content = c, tool_calls = Some tcs, tool_call_id = None\<rparr>"
  let ?s0 = "(push ?m a, w\<lparr>llm_calls := Suc (llm_calls w)\<rparr>)"
  obtain a1 w1 where s1: "process_toolCalls env tcs ?s0 = (a1, w1)"
    by (cases "process_toolCalls env tcs ?s0")
  have "iteration_try env (a, w) = (Inr None, a1, w1)"
    using iteration_try_batch[OF assms(2,3), of a] s1 by simp
  then have loop: "run_loop env maxIt it (a, w) = run_loop env maxIt (Suc it) (a1, w1)"
    using assms(1) by (simp add: run_loop.simps[of env maxIt it])
  have h1: "conversationHistory a1 =
              conversationHistory a @ [?m] @ map2 (outcome_message env) tcs (batch_outcomes env tcs ?s0)"
    using process_toolCalls_history[of env tcs ?s0] s1 by (simp add: push_def)
  from run_loop_history[of env maxIt "Suc it" a1 w1] obtain ms where
    "conversationHistory (fst (snd (run_loop env maxIt (Suc it) (a1, w1)))) = conversationHistory a1 @ ms"
    by blast
  with loop h1 show ?thesis by (simp add: prefix_def)
qed

lemma run_answers_the_first_batch:
  assumes "maxIterations (config a) \<noteq> Some 0" "llm_endpoint env (llm_calls w) = Inr (c, Some tcs)" "tcs \<noteq> []"
  shows "prefix (conversationHistory a
                 @ [user_message userMessage,
                    \<lparr>role = assistant, content = c, tool_calls = Some tcs, tool_call_id = None\<rparr>]
                 @ map2 (outcome_message env) tcs
                     (batch_outcomes env tcs
                        (push \<lparr>role = assistant, content = c, tool_calls = Some tcs, tool_call_id = None\<rparr>
                           (push (user_message userMessage) a),
                         w\<lparr>llm_calls := Suc (llm_calls w)\<rparr>)))
           (conversationHistory (fst (snd (run env userMessage (a, w)))))"
proof -
  let ?n = "case maxIterations (config a) of None \<Rightarrow> 10 | Some n \<Rightarrow> n"
  have "0 < ?n" using assms(1) by (cases "maxIterations (config a)") auto
  from run_loop_answers_the_batch[OF this assms(2,3), of "push (user_message userMessage) a"]
  show ?thesis by (simp add: run_def push_def)
qed

text \<open>
  Claim C9. \<open>run\<close> returns a response whatever the model endpoint and the handlers
  do, never an exception: the iteration-cap failure when every answer requested tools,
  the failure \<open>Agent failed\<close> with the error's message when the last query failed, and
  a success only when the last answer requested no tool. Tool-level errors do not leave
  \<open>run\<close>: when the model answers with a batch of tool calls, in the first iteration of
  \<open>run\<close> or in any later iteration of its loop, the history that \<open>run\<close> returns holds,
  right after the assistant message, one tool message for each call of the batch, in
  order; the message of a call is made from the outcome of its \<open>try\<close> block in the
  state the calls before it left, and for a failed call it is the tool message whose
  content is \<open>JSON.stringify({error: message})\<close>. Malformed arguments, unknown tool
  names and handlers that throw are failed calls.
\<close>

theorem run_always_returns_a_response:
  "(\<exists>r a' w'. run env userMessage (a, w) = (Inr r, a', w') \<and>
       ((r = max_iterations_reached \<and>
           (\<forall>n. llm_calls w \<le> n \<and> n < llm_calls w' \<longrightarrow> requests_tools env n))
        \<or> (\<exists>e. llm_calls w < llm_calls w' \<and> llm_endpoint env (llm_calls w' - 1) = Inl e \<and> r = agent_failed e)
        \<or> (\<exists>c tcs. llm_calls w < llm_calls w' \<and> llm_endpoint env (llm_calls w' - 1) = Inr (c, tcs) \<and>
              \<not> requests_tools env (llm_calls w' - 1) \<and>
              r = completed \<lparr>role = assistant, content = c, tool_calls = tcs, tool_call_id = None\<rparr> (context' a')))
       \<and> (success r \<longleftrightarrow>
             llm_calls w < llm_calls w' \<and> \<not> isl (llm_endpoint env (llm_calls w' - 1)) \<and>
             \<not> requests_tools env (llm_calls w' - 1)))
   \<and> (\<forall>c tcs. maxIterations (config a) \<noteq> Some 0 \<and>
          llm_endpoint env (llm_calls w) = Inr (c, Some tcs) \<and> tcs \<noteq> [] \<longrightarrow>
          prefix (conversationHistory a
                  @ [user_message userMessage,
                     \<lparr>role = assistant, content = c, tool_calls = Some tcs, tool_call_id = None\<rparr>]
                  @ map2 (outcome_message env) tcs
                      (batch_outcomes env tcs
                         (push \<lparr>role = assistant, content = c, tool_calls = Some tcs, tool_call_id = None\<rparr>
                            (push (user_message userMessage) a),
                          w\<lparr>llm_calls := Suc (llm_calls w)\<rparr>)))
            (conversationHistory (fst (snd (run env userMessage (a, w))))))
   \<and> (\<forall>maxIt it b v c tcs. it < maxIt \<and>
          llm_endpoint env (llm_calls v) = Inr (c, Some tcs) \<and> tcs \<noteq> [] \<longrightarrow>
          prefix (conversationHistory b
                  @ [\<lparr>role = assistant, content = c, tool_calls = Some tcs, tool_call_id = None\<rparr>]
                  @ map2 (outcome_message env) tcs
                      (batch_outcomes env tcs
                         (push \<lparr>role = assistant, content = c, tool_calls = Some tcs, tool_call_id = None\<rparr> b,
                          v\<lparr>llm_calls := Suc (llm_calls v)\<rparr>)))
            (conversationHistory (fst (snd (run_loop env maxIt it (b, v))))))
   \<and> (\<forall>tcs s j. j < length tcs \<longrightarrow>
          map2 (outcome_message env) tcs (batch_outcomes env tcs s) ! j =
            outcome_message env (tcs ! j)
              (fst (toolCall_try env (tcs ! j) (process_toolCalls env (take j tcs) s))))
   \<and> (\<forall>toolCall e. outcome_message env toolCall (Inl e) =
          \<lparr>role = tool, content = Some (JSON_stringify env (JObj [(''error'', JStr (errorMessage e))])),
           tool_calls = None, tool_call_id = Some (id' toolCall)\<rparr>)
   \<and> (\<forall>toolCall s. conversationHistory (fst (process_toolCall env toolCall s)) =
          conversationHistory (fst s) @ [outcome_message env toolCall (fst (toolCall_try env toolCall s))])
   \<and> (\<forall>toolCall s e. JSON_parse env (function_arguments toolCall) = Inl e \<longrightarrow>
          fst (toolCall_try env toolCall s) = Inl e)
   \<and> (\<forall>toolCall s args. JSON_parse env (function_arguments toolCall) = Inr args \<and>
          toolHandlers (fst s) (function_name toolCall) = None \<longrightarrow>
          fst (toolCall_try env toolCall s) = Inl (Error (''Unknown tool: '' @ function_name toolCall)))
   \<and> (\<forall>toolCall s args h e. JSON_parse env (function_arguments toolCall) = Inr args \<and>
          toolHandlers (fst s) (function_name toolCall) = Some h \<and>
          fst (h env args (context' (fst s), members (fst s)) (outside (snd s))) = Inl e \<longrightarrow>
          fst (toolCall_try env toolCall s) = Inl e)"
proof (intro conjI)
  let ?a = "push (user_message userMessage) a"
  let ?n = "case maxIterations (config a) of None \<Rightarrow> 10 | Some n \<Rightarrow> n"
  from run_loop_cases[of env ?n 0 ?a w] obtain r a' w' where
    r: "run_loop env ?n 0 (?a, w) = (Inr r, a', w')" and
    c: "(r = max_iterations_reached \<and> llm_calls w' = llm_calls w + (?n - 0) \<and>
          (\<forall>n. llm_calls w \<le> n \<and> n < llm_calls w' \<longrightarrow> requests_tools env n))
        \<or> (llm_calls w < llm_calls w' \<and> llm_calls w' \<le> llm_calls w + (?n - 0) \<and>
            (\<forall>n. llm_calls w \<le> n \<and> Suc n < llm_calls w' \<longrightarrow> requests_tools env n) \<and>
            \<not> requests_tools env (llm_calls w' - 1) \<and>
            (case llm_endpoint env (llm_calls w' - 1) of
               Inl e \<Rightarrow> r = agent_failed e
             | Inr (c, tcs) \<Rightarrow>
                 r = completed \<lparr>role = assistant, content = c, tool_calls = tcs, tool_call_id = None\<rparr> (context' a')))"
    by blast
  have run: "run env userMessage (a, w) = (Inr r, a', w')"
    using r by (simp add: run_def)
  from c have shape:
    "(r = max_iterations_reached \<and>
           (\<forall>n. llm_calls w \<le> n \<and> n < llm_calls w' \<longrightarrow> requests_tools env n))
        \<or> (\<exists>e. llm_calls w < llm_calls w' \<and> llm_endpoint env (llm_calls w' - 1) = Inl e \<and> r = agent_failed e)
        \<or> (\<exists>c tcs. llm_calls w < llm_calls w' \<and> llm_endpoint env (llm_calls w' - 1) = Inr (c, tcs) \<and>
              \<not> requests_tools env (llm_calls w' - 1) \<and>
              r = completed \<lparr>role = assistant, content = c, tool_calls = tcs, tool_call_id = None\<rparr> (context' a'))"
    by (auto split: sum.splits)
  have succ: "success r \<longleftrightarrow>
             llm_calls w < llm_calls w' \<and> \<not> isl (llm_endpoint env (llm_calls w' - 1)) \<and>
             \<not> requests_tools env (llm_calls w' - 1)"
  proof (cases "r = max_iterations_reached \<and>
           (\<forall>n. llm_calls w \<le> n \<and> n < llm_calls w' \<longrightarrow> requests_tools env n)")
    case True
    then have "\<not> success r" by (simp add: max_iterations_reached_def)
    moreover have "llm_calls w < llm_calls w' \<longrightarrow> requests_tools env (llm_calls w' - 1)"
      using True by auto
    ultimately show ?thesis by blast
  next
    case False
    with shape show ?thesis
      by (auto simp: agent_failed_def completed_def)
  qed
  from run shape succ
  show "\<exists>r a' w'. run env userMessage (a, w) = (Inr r, a', w') \<and>
       ((r = max_iterations_reached \<and>
           (\<forall>n. llm_calls w \<le> n \<and> n < llm_calls w' \<longrightarrow> requests_tools env n))
        \<or> (\<exists>e. llm_calls w < llm_calls w' \<and> llm_endpoint env (llm_calls w' - 1) = Inl e \<and> r = agent_failed e)
        \<or> (\<exists>c tcs. llm_calls w < llm_calls w' \<and> llm_endpoint env (llm_calls w' - 1) = Inr (c, tcs) \<and>
              \<not> requests_tools env (llm_calls w' - 1) \<and>
              r = completed \<lparr>role = assistant, content = c, tool_calls = tcs, tool_call_id = None\<rparr> (context' a')))
       \<and> (success r \<longleftrightarrow>
             llm_calls w < llm_calls w' \<and> \<not> isl (llm_endpoint env (llm_calls w' - 1)) \<and>
             \<not> requests_tools env (llm_calls w' - 1))"
    by blast
next
  show "\<forall>c tcs. maxIterations (config a) \<noteq> Some 0 \<and>
          llm_endpoint env (llm_calls w) = Inr (c, Some tcs) \<and> tcs \<noteq> [] \<longrightarrow>
          prefix (conversationHistory a
                  @ [user_message userMessage,
                     \<lparr>role = assistant, content = c, tool_calls = Some tcs, tool_call_id = None\<rparr>]
                  @ map2 (outcome_message env) tcs
                      (batch_outcomes env tcs
                         (push \<lparr>role = assistant, content = c, tool_calls = Some tcs, tool_call_id = None\<rparr>
                            (push (user_message userMessage) a),
                          w\<lparr>llm_calls := Suc (llm_calls w)\<rparr>)))
            (conversationHistory (fst (snd (run env userMessage (a, w)))))"
    using run_answers_the_first_batch by blast
next
  show "\<forall>maxIt it b v c tcs. it < maxIt \<and>
          llm_endpoint env (llm_calls v) = Inr (c, Some tcs) \<and> tcs \<noteq> [] \<longrightarrow>
          prefix (conversationHistory b
                  @ [\<lparr>role = assistant, content = c, tool_calls = Some tcs, tool_call_id = None\<rparr>]
                  @ map2 (outcome_message env) tcs
                      (batch_outcomes env tcs
                         (push \<lparr>role = assistant, content = c, tool_calls = Some tcs, tool_call_id = None\<rparr> b,
                          v\<lparr>llm_calls := Suc (llm_calls v)\<rparr>)))
            (conversationHistory (fst (snd (run_loop env maxIt it (b, v)))))"
    using run_loop_answers_the_batch by blast
next
  show "\<forall>tcs s j. j < length tcs \<longrightarrow>
          map2 (outcome_message env) tcs (batch_outcomes env tcs s) ! j =
            outcome_message env (tcs ! j)
              (fst (toolCall_try env (tcs ! j) (process_toolCalls env (take j tcs) s)))"
    by (simp add: length_batch_outcomes batch_outcomes_nth)
next
  show "\<forall>toolCall e. outcome_message env toolCall (Inl e) =
          \<lparr>role = tool, content = Some (JSON_stringify env (JObj [(''error'', JStr (errorMessage e))])),
           tool_calls = None, tool_call_id = Some (id' toolCall)\<rparr>"
    by (simp add: outcome_message_def tool_error_message_def)
next
  show "\<forall>toolCall s args h e. JSON_parse env (function_arguments toolCall) = Inr args \<and>
          toolHandlers (fst s) (function_name toolCall) = Some h \<and>
          fst (h env args (context' (fst s), members (fst s)) (outside (snd s))) = Inl e \<longrightarrow>
          fst (toolCall_try env toolCall s) = Inl e"
    using toolCall_try_throws by blast
qed (simp_all add: process_toolCall_history toolCall_try_malformed toolCall_try_unknown)

lemma faulty_outcomes:
  "batch_outcomes faulty_env faulty_batch
     (push \<lparr>role = assistant, content = None, tool_calls = Some faulty_batch, tool_call_id = None\<rparr>
        (push (user_message ''go'') (small_agent 3)),
      idle_world\<lparr>llm_calls := Suc (llm_calls idle_world)\<rparr>) =
     [Inr (JObj []), Inl (Error ''boom''), Inl (Error ''Unknown tool: missing''),
      Inl (Error ''Unexpected token in JSON'')]"
  by code_simp

text \<open>
  With an unreachable model endpoint: one query, then a failure result. With a batch of
  four calls of which three fail, each in its own way: four tool messages, three of
  them errors, and a success once the model finishes.
\<close>

theorem run_always_returns_a_response_witness:
  "(\<exists>r a' w'. run offline_env ''go'' (small_agent 3, idle_world) = (Inr r, a', w') \<and>
      success r = False \<and> llm_calls w' = 1)
   \<and> (\<exists>r a' w'. run faulty_env ''go'' (small_agent 3, idle_world) = (Inr r, a', w') \<and>
      success r \<and> llm_calls w' = 2 \<and>
      prefix (conversationHistory (small_agent 3)
              @ [user_message ''go'',
                 \<lparr>role = assistant, content = None, tool_calls = Some faulty_batch, tool_call_id = None\<rparr>,
                 tool_result_message faulty_env (echo_call ''call_1'') (JObj []),
                 tool_error_message faulty_env (boom_call ''call_2'') (Error ''boom''),
                 tool_error_message faulty_env (missing_call ''call_3'') (Error ''Unknown tool: missing''),
                 tool_error_message faulty_env (garbled_call ''call_4'') (Error ''Unexpected token in JSON'')])
        (conversationHistory a'))"
proof
  have n: "llm_calls (snd (snd (run offline_env ''go'' (small_agent 3, idle_world)))) = 1"
    by code_simp
  have e: "isl (llm_endpoint offline_env 0)"
    by (simp add: offline_env_def)
  from run_always_returns_a_response[of offline_env "''go''" "small_agent 3" idle_world, THEN conjunct1]
  obtain r a' w' where r: "run offline_env ''go'' (small_agent 3, idle_world) = (Inr r, a', w')"
    and s: "success r \<longleftrightarrow>
             llm_calls idle_world < llm_calls w' \<and> \<not> isl (llm_endpoint offline_env (llm_calls w' - 1)) \<and>
             \<not> requests_tools offline_env (llm_calls w' - 1)"
    by blast
  from n r have "llm_calls w' = 1" by simp
  with s e r show "\<exists>r a' w'. run offline_env ''go'' (small_agent 3, idle_world) = (Inr r, a', w') \<and>
      success r = False \<and> llm_calls w' = 1" by simp
next
  let ?m = "\<lparr>role = assistant, content = None, tool_calls = Some faulty_batch, tool_call_id = None\<rparr>"
  note T = run_always_returns_a_response[of faulty_env "''go''" "small_agent 3" idle_world]
  have cap: "maxIterations (config (small_agent 3)) \<noteq> Some 0"
    by (simp add: small_agent_def registerTool_def new_BaseAgent_def)
  have first: "llm_endpoint faulty_env (llm_calls idle_world) = Inr (None, Some faulty_batch)"
    by (simp add: faulty_env_def sample_env_def idle_world_def)
  have nonempty: "faulty_batch \<noteq> []"
    by (simp add: faulty_batch_def)
  have n: "llm_calls (snd (snd (run faulty_env ''go'' (small_agent 3, idle_world)))) = 2"
    by code_simp
  have last: "\<not> isl (llm_endpoint faulty_env 1)" "\<not> requests_tools faulty_env 1"
    by code_simp+
  from T[THEN conjunct1] obtain r a' w' where r: "run faulty_env ''go'' (small_agent 3, idle_world) = (Inr r, a', w')"
    and s: "success r \<longleftrightarrow>
             llm_calls idle_world < llm_calls w' \<and> \<not> isl (llm_endpoint faulty_env (llm_calls w' - 1)) \<and>
             \<not> requests_tools faulty_env (llm_calls w' - 1)"
    by blast
  from n r have calls: "llm_calls w' = 2" by simp
  with s last have ok: "success r" by (simp add: idle_world_def)
  from T[THEN conjunct2, THEN conjunct1] cap first nonempty have
    "prefix (conversationHistory (small_agent 3)
             @ [user_message ''go'', ?m]
             @ map2 (outcome_message faulty_env) faulty_batch
                 (batch_outcomes faulty_env faulty_batch
                    (push ?m (push (user_message ''go'') (small_agent 3)),
                     idle_world\<lparr>llm_calls := Suc (llm_calls idle_world)\<rparr>)))
       (conversationHistory (fst (snd (run faulty_env ''go'' (small_agent 3, idle_world)))))"
    by blast
  then have "prefix (conversationHistory (small_agent 3)
              @ [user_message ''go'', ?m,
                 tool_result_message faulty_env (echo_call ''call_1'') (JObj []),
                 tool_error_message faulty_env (boom_call ''call_2'') (Error ''boom''),
                 tool_error_message faulty_env (missing_call ''call_3'') (Error ''Unknown tool: missing''),
                 tool_error_message faulty_env (garbled_call ''call_4'') (Error ''Unexpected token in JSON'')])
        (conversationHistory a')"
    unfolding faulty_outcomes using r by (simp add: faulty_batch_def outcome_message_def)
  with r ok calls show "\<exists>r a' w'. run faulty_env ''go'' (small_agent 3, idle_world) = (Inr r, a', w') \<and>
      success r \<and> llm_calls w' = 2 \<and>
      prefix (conversationHistory (small_agent 3)
              @ [user_message ''go'', ?m,
                 tool_result_message faulty_env (echo_call ''call_1'') (JObj []),
                 tool_error_message faulty_env (boom_call ''call_2'') (Error ''boom''),
                 tool_error_message faulty_env (missing_call ''call_3'') (Error ''Unknown tool: missing''),
                 tool_error_message faulty_env (garbled_call ''call_4'') (Error ''Unexpected token in JSON'')])
        (conversationHistory a')"
    by blast
qed

section \<open>Routing of free-text commands\<close>

text \<open>
  Claim C8. \<open>runCommand\<close> tests the acquisition keywords first, then the analysis
  keywords, then the report keywords, and hands the command to the calendar agent when
  none matches; the agents it does not choose are left as they were. The command
  \<open>please fetch my meetings for March\<close> has an acquisition keyword;
  \<open>generate the excel export\<close> has a report keyword and none of the others.
\<close>

theorem runCommand_routes_by_keywords:
  "(acquisition_keywords command \<longrightarrow>
      fst (runCommand env command (orch, w)) = fst (run env command (calendarAgent orch, w)) \<and>
      calendarAgent (fst (snd (runCommand env command (orch, w)))) = fst (snd (run env command (calendarAgent orch, w))) \<and>
      analysisAgent (fst (snd (runCommand env command (orch, w)))) = analysisAgent orch \<and>
      reportAgent (fst (snd (runCommand env command (orch, w)))) = reportAgent orch)
   \<and> (\<not> acquisition_keywords command \<and> analysis_keywords command \<longrightarrow>
      fst (runCommand env command (orch, w)) =
        fst (run env command (setContext (sharedContext orch) (analysisAgent orch), w)) \<and>
      analysisAgent (fst (snd (runCommand env command (orch, w)))) =
        fst (snd (run env command (setContext (sharedContext orch) (analysisAgent orch), w))) \<and>
      calendarAgent (fst (snd (runCommand env command (orch, w)))) = calendarAgent orch \<and>
      reportAgent (fst (snd (runCommand env command (orch, w)))) = reportAgent orch)
   \<and> (\<not> acquisition_keywords command \<and> \<not> analysis_keywords command \<and> report_keywords command \<longrightarrow>
      fst (runCommand env command (orch, w)) =
        fst (run env command (setContext (sharedContext orch) (reportAgent orch), w)) \<and>
      reportAgent (fst (snd (runCommand env command (orch, w)))) =
        fst (snd (run env command (setContext (sharedContext orch) (reportAgent orch), w))) \<and>
      calendarAgent (fst (snd (runCommand env command (orch, w)))) = calendarAgent orch \<and>
      analysisAgent (fst (snd (runCommand env command (orch, w)))) = analysisAgent orch)
   \<and> (\<not> acquisition_keywords command \<and> \<not> analysis_keywords command \<and> \<not> report_keywords command \<longrightarrow>
      fst (runCommand env command (orch, w)) = fst (run env command (calendarAgent orch, w)) \<and>
      calendarAgent (fst (snd (runCommand env command (orch, w)))) = fst (snd (run env command (calendarAgent orch, w))) \<and>
      analysisAgent (fst (snd (runCommand env command (orch, w)))) = analysisAgent orch \<and>
      reportAgent (fst (snd (runCommand env command (orch, w)))) = reportAgent orch)
   \<and> acquisition_keywords ''please fetch my meetings for March''
   \<and> \<not> acquisition_keywords ''generate the excel export''
   \<and> \<not> analysis_keywords ''generate the excel export''
   \<and> report_keywords ''generate the excel export''"
proof (intro conjI impI)
  show "acquisition_keywords ''please fetch my meetings for March''" by code_simp
  show "\<not> acquisition_keywords ''generate the excel export''" by code_simp
  show "\<not> analysis_keywords ''generate the excel export''" by code_simp
  show "report_keywords ''generate the excel export''" by code_simp
qed (auto simp: runCommand_def Let_def acquisition_keywords_def analysis_keywords_def report_keywords_def
          split: prod.splits sum.splits)

text \<open>The two commands of the claim, given to a newly constructed orchestrator.\<close>

theorem runCommand_routes_by_keywords_witness:
  "fst (runCommand (sample_env [] []) ''please fetch my meetings for March''
          (started (new_AgentOrchestrator signed_in sample_outside))) =
     fst (run (sample_env [] []) ''please fetch my meetings for March''
          (calendarAgent (fst (started (new_AgentOrchestrator signed_in sample_outside))),
           snd (started (new_AgentOrchestrator signed_in sample_outside))))
   \<and> fst (runCommand (sample_env [] []) ''generate the excel export''
          (started (new_AgentOrchestrator signed_in sample_outside))) =
     fst (run (sample_env [] []) ''generate the excel export''
          (setContext (sharedContext (fst (started (new_AgentOrchestrator signed_in sample_outside))))
             (reportAgent (fst (started (new_AgentOrchestrator signed_in sample_outside)))),
           snd (started (new_AgentOrchestrator signed_in sample_outside))))"
proof -
  obtain orch w where s: "started (new_AgentOrchestrator signed_in sample_outside) = (orch, w)"
    by (cases "started (new_AgentOrchestrator signed_in sample_outside)")
  from runCommand_routes_by_keywords[of "''please fetch my meetings for March''" "sample_env [] []" orch w]
  have 1: "fst (runCommand (sample_env [] []) ''please fetch my meetings for March'' (orch, w)) =
           fst (run (sample_env [] []) ''please fetch my meetings for March'' (calendarAgent orch, w))"
    by blast
  from runCommand_routes_by_keywords[of "''generate the excel export''" "sample_env [] []" orch w]
  have 2: "fst (runCommand (sample_env [] []) ''generate the excel export'' (orch, w)) =
           fst (run (sample_env [] []) ''generate the excel export''
                  (setContext (sharedContext orch) (reportAgent orch), w))"
    by blast
  from 1 2 show ?thesis by (simp add: s)
qed

section \<open>Per-record analysis\<close>

lemma analyze_all_loop_analyzeMeeting:
  "fst (analyze_all_loop analyzeMeeting env ref events (n, w)) =
     n + length (filter (\<lambda>m. \<not> isCancelled m) events)"
proof (induction events arbitrary: n w)
  case Nil
  then show ?case by simp
next
  case (Cons m ms)
  show ?case
  proof (cases "isCancelled m")
    case True
    with Cons show ?thesis by simp
  next
    case False
    obtain x w1 where t: "analyzeMeeting_try env w = (x, w1)" by (cases "analyzeMeeting_try env w")
    obtain analysis where a: "analyzeMeeting env m w = (Inr analysis, w1)"
      using t by (cases x) (simp_all add: analyzeMeeting_def)
    from False a Cons.IH[of "Suc n" "Map_set ref (event_id m) analysis w1"] show ?thesis by simp
  qed
qed

text \<open>
  Claim C5, amended. \<open>analyzeMeeting\<close> never propagates an error. When the request to
  the LLM fails or its reply cannot be parsed, the result is the default analysis:
  category \<open>other\<close>, no action items, no key topics, and as summary the first 100
  characters of the record's body preview, or the text \<open>No description available\<close> when
  the body preview is empty. So the loop of \<open>analyze_all_meetings\<close> records an analysis
  for every meeting that is not cancelled.
\<close>

theorem analyzeMeeting_degrades_to_default:
  "(\<exists>analysis w'. analyzeMeeting env event w = (Inr analysis, w'))
   \<and> (\<forall>e w'. chatCompletion env w = (Inl e, w') \<longrightarrow>
         analyzeMeeting env event w = (Inr (default_analysis event), w'))
   \<and> (\<forall>response e w'. chatCompletion env w = (Inr response, w') \<and>
         parse_MeetingAnalysis env (strip_fences response) = Inl e \<longrightarrow>
         analyzeMeeting env event w = (Inr (default_analysis event), w'))
   \<and> category (default_analysis event) = ''other''
   \<and> actionItems (default_analysis event) = []
   \<and> keyTopics (default_analysis event) = []
   \<and> summary (default_analysis event) =
       (if bodyPreview event = [] then ''No description available'' else take 100 (bodyPreview event))
   \<and> fst (analyze_all_loop analyzeMeeting env ref events (n, w)) =
       n + length (filter (\<lambda>m. \<not> isCancelled m) events)"
proof (intro conjI)
  show "\<exists>analysis w'. analyzeMeeting env event w = (Inr analysis, w')"
    by (cases "analyzeMeeting_try env w"; cases "fst (analyzeMeeting_try env w)")
       (auto simp: analyzeMeeting_def)
  show "fst (analyze_all_loop analyzeMeeting env ref events (n, w)) =
       n + length (filter (\<lambda>m. \<not> isCancelled m) events)"
    by (rule analyze_all_loop_analyzeMeeting)
qed (auto simp: analyzeMeeting_def analyzeMeeting_try_def default_analysis_def)

text \<open>The service is down: a record with a body preview gets that preview as its summary.\<close>

theorem analyzeMeeting_degrades_to_default_witness:
  "fst (analyzeMeeting (sample_env [] []) planning sample_outside) =
     Inr \<lparr>summary = ''Agenda: roadmap'', category = ''other'', actionItems = [], keyTopics = []\<rparr>"
proof -
  have c: "chatCompletion (sample_env [] []) sample_outside =
             (Inl (Error ''LLM API error: 500 - unavailable''), sample_outside\<lparr>chat_calls := Suc 0\<rparr>)"
    by (simp add: chatCompletion_def isLLMConfigured_def sample_env_def sample_outside_def)
  have d: "default_analysis planning =
             \<lparr>summary = ''Agenda: roadmap'', category = ''other'', actionItems = [], keyTopics = []\<rparr>"
    by (simp add: default_analysis_def planning_def meeting_def)
  from analyzeMeeting_degrades_to_default[of "sample_env [] []" planning sample_outside] c
  have "analyzeMeeting (sample_env [] []) planning sample_outside =
          (Inr (default_analysis planning), sample_outside\<lparr>chat_calls := Suc 0\<rparr>)"
    by blast
  with d show ?thesis by simp
qed

text \<open>
  A record with an empty body preview: the summary of its default analysis is not the
  (empty) truncated raw text.
\<close>

theorem default_summary_counterexample:
  "summary (projr (fst (analyzeMeeting (sample_env [] []) placeholder sample_outside))) = ''No description available''
   \<and> summary (projr (fst (analyzeMeeting (sample_env [] []) placeholder sample_outside)))
       \<noteq> take 100 (bodyPreview placeholder)"
  by code_simp

section \<open>The report pipeline without records\<close>

lemma generateReport_without_meetings:
  assumes "fetch_instruction env options = Inr instruction"
    and "run env instruction (calendarAgent orch, w) = (Inr calendarResult, c1, w1)"
    and "success calendarResult"
    and "length (getMeetings c1) = 0"
  shows "generateReport env options (orch, w) =
           (\<lparr>success = False, message = ''No meetings found in the specified date range'',
             error = None, filename = None, downloadUrl = None\<rparr>,
            orch\<lparr>calendarAgent := c1, sharedContext := context' c1\<rparr>, w1)"
  using assms
  by (simp add: generateReport_def generateReport_try_def no_meetings_found_def Let_def)

lemma fetchCalendarEvents_of_an_empty_calendar:
  assumes "\<forall>k. graph_endpoint env k = Inr []" "fetchCalendarEvents env msal d1 d2 w = (r, w')"
  shows "(r = Inr [] \<and> graph_calls w' = Suc (graph_calls w)) \<or> (isl r \<and> graph_calls w' = graph_calls w)"
  using assms
  by (auto simp: fetchCalendarEvents_def getAccessToken_def split: if_splits sum.splits prod.splits)

lemma fetch_calendar_events_empties:
  assumes "\<forall>k. graph_endpoint env k = Inr []"
    and "fetch_calendar_events env args self w = (r, self', w')" "empty_once_fetched g b self w"
  shows "empty_once_fetched g b self' w'"
proof (cases self)
  case (Pair c f)
  note fetched = fetchCalendarEvents_of_an_empty_calendar[OF assms(1)]
  show ?thesis
    using assms(2,3) Pair
    by (auto simp: fetch_calendar_events_def empty_once_fetched_def Let_def
             dest!: fetched split: option.splits if_splits sum.splits prod.splits)
qed

lemma filter_by_nothing: "filter_by env filterType filterValue domain [] = Inr ms \<Longrightarrow> ms = []"
  by (auto simp: filter_by_def Let_def split: if_splits sum.splits)

lemma filter_meetings_empties:
  assumes "filter_meetings env args self w = (r, self', w')" "empty_once_fetched g b self w"
  shows "empty_once_fetched g b self' w'"
  using assms
  by (cases self)
     (auto simp: filter_meetings_def empty_once_fetched_def Let_def dest: filter_by_nothing
           split: if_splits sum.splits)

lemma get_meeting_stats_empties:
  assumes "get_meeting_stats env args self w = (r, self', w')" "empty_once_fetched g b self w"
  shows "empty_once_fetched g b self' w'"
  using assms by (cases self) (auto simp: get_meeting_stats_def)

lemma CalendarAgent_handlers_empty:
  assumes "\<forall>k. graph_endpoint env k = Inr []" "toolHandlers a = toolHandlers new_CalendarAgent"
  shows "handlers_preserve env a (empty_once_fetched g b)"
  unfolding handlers_preserve_def
proof (intro allI impI, elim conjE)
  fix nm hd args self out r self' out'
  assume "toolHandlers a nm = Some hd"
    and run: "hd env args self out = (r, self', out')" and before: "empty_once_fetched g b self out"
  then have "toolHandlers (setMsalInstance \<lparr>accounts = []\<rparr> new_CalendarAgent) nm = Some hd"
    using assms(2) by (simp add: setMsalInstance_def)
  from CalendarAgent_tools[OF this] show "empty_once_fetched g b self' out'"
  proof (elim disjE)
    assume "hd = fetch_calendar_events"
    with run before show ?thesis by (simp add: fetch_calendar_events_empties[OF assms(1)])
  next
    assume "hd = filter_meetings"
    with run before show ?thesis by (simp add: filter_meetings_empties)
  next
    assume "hd = get_meeting_stats"
    with run before show ?thesis by (simp add: get_meeting_stats_empties)
  qed
qed

text \<open>
  Where the claim holds: every fetch of the calendar returns no event, and the
  calendar agent held no meetings before the request or fetches during it.
\<close>

lemma an_empty_calendar_gives_no_meetings_found:
  assumes calendar: "\<forall>k. graph_endpoint env k = Inr []"
    and agent: "toolHandlers (calendarAgent orch) = toolHandlers new_CalendarAgent"
    and instruction: "fetch_instruction env options = Inr instruction"
    and acquisition: "run env instruction (calendarAgent orch, w) = (Inr calendarResult, c1, w1)"
      "success calendarResult"
    and fresh_or_fetched: "getMeetings (calendarAgent orch) = [] \<or> graph_calls (outside w) < graph_calls (outside w1)"
  shows "generateReport env options (orch, w) =
           (\<lparr>success = False, message = ''No meetings found in the specified date range'',
             error = None, filename = None, downloadUrl = None\<rparr>,
            orch\<lparr>calendarAgent := c1, sharedContext := context' c1\<rparr>, w1)"
proof -
  let ?P = "empty_once_fetched (graph_calls (outside w)) (getMeetings (calendarAgent orch) = [])"
  have "holds_in ?P (calendarAgent orch, w)"
    by (simp add: holds_in_def empty_once_fetched_def getMeetings_def)
  from run_holds[OF CalendarAgent_handlers_empty[OF calendar agent] this, where userMessage = instruction]
    acquisition(1)
  have "holds_in ?P (c1, w1)" by simp
  with fresh_or_fetched have "length (getMeetings c1) = 0"
    by (auto simp: holds_in_def empty_once_fetched_def getMeetings_def)
  from generateReport_without_meetings[OF instruction acquisition this] show ?thesis .
qed

text \<open>
  An empty calendar and a newly constructed orchestrator: the calendar agent fetches,
  finds nothing and finishes, and the request ends with the "no meetings found" result
  after the two model queries of the calendar agent.
\<close>

lemma an_empty_calendar_example:
  "message (fst (generateReport (sample_env pipeline_script []) march_options
          (started (new_AgentOrchestrator signed_in sample_outside)))) =
     ''No meetings found in the specified date range''
   \<and> \<not> success (fst (generateReport (sample_env pipeline_script []) march_options
          (started (new_AgentOrchestrator signed_in sample_outside))))
   \<and> llm_calls (snd (snd (generateReport (sample_env pipeline_script []) march_options
          (started (new_AgentOrchestrator signed_in sample_outside))))) = 2"
  by code_simp

text \<open>
  Claim C3 fails on the code. \<open>generateReport\<close> tests the meetings that the calendar
  agent holds, not the records that this acquisition yielded, and \<open>reset\<close> does not
  clear the meetings held. A report for March over three meetings is followed by
  \<open>reset\<close> and by a request for April, in a calendar with no event in April. The
  calendar agent's run for April succeeds without a fetch and leaves no meetings in its
  context; the request nevertheless goes through the analysis and the report steps
  (three more model queries) and returns \<open>success = true\<close> with the message
  \<open>Report generated with 3 meetings\<close>, where the claim has the "no meetings found"
  result.
\<close>

theorem stale_meetings_are_reported_when_nothing_is_fetched:
  "(let env = march_only_env pipeline_script;
        march = generateReport env march_options (started (new_AgentOrchestrator signed_in sample_outside));
        s = AgentOrchestrator_reset (snd march);
        acquisition = run env ''Fetch all calendar events from 2024-04-01 to 2024-04-30'' (calendarAgent (fst s), snd s);
        april = generateReport env april_options s
    in message (fst march) = ''Report generated with 3 meetings''
       \<and> getMeetings (calendarAgent (fst s)) = three_meetings
       \<and> fetch_instruction env april_options = Inr ''Fetch all calendar events from 2024-04-01 to 2024-04-30''
       \<and> success (projr (fst acquisition))
       \<and> graph_calls (outside (snd s)) = 1
       \<and> graph_calls (outside (snd (snd acquisition))) = 1
       \<and> graph_endpoint env 1 = Inr []
       \<and> context' (fst (snd acquisition)) ''meetings'' = None
       \<and> success (fst april)
       \<and> message (fst april) = ''Report generated with 3 meetings''
       \<and> llm_calls (snd (snd acquisition)) = llm_calls (snd s) + 1
       \<and> llm_calls (snd (snd april)) = llm_calls (snd s) + 4)"
  by code_simp

section \<open>Report rows\<close>















section \<open>Reset of the orchestrator\<close>

lemma reset_clears_history_and_context:
  "conversationHistory (reset a) = [system_message (config a)] \<and> context' (reset a) = Map.empty"
  by (simp add: reset_def)

lemma AgentOrchestrator_reset_clears:
  "sharedContext (fst (AgentOrchestrator_reset (orch, w))) = Map.empty
   \<and> conversationHistory (calendarAgent (fst (AgentOrchestrator_reset (orch, w)))) = [system_message (config (calendarAgent orch))]
   \<and> conversationHistory (analysisAgent (fst (AgentOrchestrator_reset (orch, w)))) = [system_message (config (analysisAgent orch))]
   \<and> conversationHistory (reportAgent (fst (AgentOrchestrator_reset (orch, w)))) = [system_message (config (reportAgent orch))]
   \<and> context' (calendarAgent (fst (AgentOrchestrator_reset (orch, w)))) = Map.empty
   \<and> context' (analysisAgent (fst (AgentOrchestrator_reset (orch, w)))) = Map.empty
   \<and> context' (reportAgent (fst (AgentOrchestrator_reset (orch, w)))) = Map.empty
   \<and> heap (outside (snd (AgentOrchestrator_reset (orch, w)))) (getAnalysisResults (analysisAgent orch)) = []
   \<and> getExecutiveSummary (analysisAgent (fst (AgentOrchestrator_reset (orch, w)))) = []
   \<and> getMeetings (calendarAgent (fst (AgentOrchestrator_reset (orch, w)))) = getMeetings (calendarAgent orch)
   \<and> reportData (members (reportAgent (fst (AgentOrchestrator_reset (orch, w))))) = reportData (members (reportAgent orch))"
  by (simp add: AgentOrchestrator_reset_def AnalysisAgent_reset_def reset_def Map_clear_def
        getAnalysisResults_def getExecutiveSummary_def getMeetings_def)

text \<open>
  Claim C6 fails on the code. After a report over three meetings, \<open>reset\<close> of the
  orchestrator leaves the calendar agent holding the three meetings, where a newly
  constructed orchestrator's calendar agent holds none; its history and context, and
  the shared context, are cleared.
\<close>

theorem reset_keeps_the_fetched_meetings:
  "getMeetings (calendarAgent (fst (AgentOrchestrator_reset (snd (generateReport
      (sample_env pipeline_script three_meetings) march_options
      (started (new_AgentOrchestrator signed_in sample_outside))))))) = three_meetings
   \<and> getMeetings (calendarAgent (fst (started (new_AgentOrchestrator signed_in sample_outside)))) = []
   \<and> length (conversationHistory (calendarAgent (fst (AgentOrchestrator_reset (snd (generateReport
      (sample_env pipeline_script three_meetings) march_options
      (started (new_AgentOrchestrator signed_in sample_outside)))))))) = 1
   \<and> context' (calendarAgent (fst (AgentOrchestrator_reset (snd (generateReport
      (sample_env pipeline_script three_meetings) march_options
      (started (new_AgentOrchestrator signed_in sample_outside))))))) ''meetings'' = None"
  by code_simp

section \<open>A report whose analyses all fail\<close>

subsection \<open>What the handlers leave as it is when every analysis fails\<close>














subsection \<open>The three steps of the report\<close>












text \<open>
  With the service's own \<open>analyzeMeeting\<close> a failed request does not leave the function:
  it answers with its default analysis, and the map holds one analysis for each meeting
  that is not cancelled.
\<close>

lemma failed_requests_give_default_analyses:
  "length (context_analysisResults
      (sharedContext (fst (snd (generateReport (sample_env pipeline_script three_meetings) march_options
         (started (new_AgentOrchestrator signed_in sample_outside))))))
      (outside (snd (snd (generateReport (sample_env pipeline_script three_meetings) march_options
         (started (new_AgentOrchestrator signed_in sample_outside))))))) = 2"
  by code_simp

end
